theory Spec2Isabelle
  imports Main
begin

section \<open>JavaScript strings\<close>

text \<open>
  A JavaScript string is a sequence of UTF-16 code units. The regular expressions of the
  message codec carry no \<^verbatim>\<open>u\<close> flag, and \<^verbatim>\<open>split\<close>, \<^verbatim>\<open>trim\<close>,
  \<^verbatim>\<open>startsWith\<close> and \<^verbatim>\<open>slice\<close> all work on code units, so a string is modelled
  as the list of its code units. \<open>js\<close> turns an ASCII literal into such a list.
\<close>

type_synonym jsstring = "nat list"

definition js :: "string \<Rightarrow> jsstring" where
  "js s = map of_char s"

text \<open>ECMAScript LineTerminator: LF, CR, U+2028, U+2029. The regex atom \<^verbatim>\<open>.\<close> matches
  every code unit except these.\<close>

definition isLineTerminator :: "nat \<Rightarrow> bool" where
  "isLineTerminator c \<longleftrightarrow> c = 10 \<or> c = 13 \<or> c = 8232 \<or> c = 8233"

text \<open>What \<^verbatim>\<open>\s\<close> matches and \<^verbatim>\<open>trim()\<close> strips: ECMAScript WhiteSpace (TAB, VT, FF,
  U+FEFF and the Unicode space separators) together with the line terminators.\<close>

definition isWhiteSpace :: "nat \<Rightarrow> bool" where
  "isWhiteSpace c \<longleftrightarrow>
     c = 9 \<or> c = 10 \<or> c = 11 \<or> c = 12 \<or> c = 13 \<or> c = 32 \<or> c = 160 \<or> c = 5760 \<or>
     (8192 \<le> c \<and> c \<le> 8202) \<or> c = 8232 \<or> c = 8233 \<or> c = 8239 \<or> c = 8287 \<or>
     c = 12288 \<or> c = 65279"

definition trim :: "jsstring \<Rightarrow> jsstring" where
  "trim s = rev (dropWhile isWhiteSpace (rev (dropWhile isWhiteSpace s)))"

definition startsWith :: "jsstring \<Rightarrow> jsstring \<Rightarrow> bool" where
  "startsWith s p \<longleftrightarrow> take (length p) s = p"

text \<open>\<^verbatim>\<open>text.split('\n')\<close>: the pieces between the separators; never the empty array.\<close>

fun split_on :: "nat \<Rightarrow> jsstring \<Rightarrow> jsstring list" where
  "split_on sep [] = [[]]"
| "split_on sep (c # cs) =
     (if c = sep then [] # split_on sep cs
      else (case split_on sep cs of
              l # ls \<Rightarrow> (c # l) # ls
            | [] \<Rightarrow> [[c]]))"

text \<open>\<^verbatim>\<open>lines.join('\n')\<close>.\<close>

fun join_lines :: "jsstring list \<Rightarrow> jsstring" where
  "join_lines [] = []"
| "join_lines [l] = l"
| "join_lines (l # ls) = l @ 10 # join_lines ls"

text \<open>Truthiness of an optional string: \<^verbatim>\<open>undefined\<close> and \<^verbatim>\<open>''\<close> are falsy.\<close>

fun truthy :: "jsstring option \<Rightarrow> bool" where
  "truthy None = False"
| "truthy (Some s) = (s \<noteq> [])"

section \<open>generateNonce (message.js)\<close>

text \<open>The result of a call: it returns a value, or it throws an error with a message. For an
  \<^verbatim>\<open>async\<close> function these are the promise resolving and rejecting.\<close>

datatype 'a outcome = Return 'a | Throw jsstring

text \<open>The alphabet and the rejection bound.\<close>

definition nonce_chars :: jsstring where
  "nonce_chars = js ''ABCDEFGHIJKLMNOPQRSTUVWXYZabcdefghijklmnopqrstuvwxyz0123456789''"

definition maxValid :: nat where
  "maxValid = 256 - (256 mod length nonce_chars)"

text \<open>The \<^verbatim>\<open>for\<close> loop over the bytes of one array: a byte below the bound is mapped to a
  character as long as the result is not full.\<close>

fun fill :: "nat \<Rightarrow> nat list \<Rightarrow> jsstring \<Rightarrow> jsstring" where
  "fill len [] result = result"
| "fill len (byte # array) result =
     fill len array
       (if byte < maxValid \<and> length result < len
        then result @ [nonce_chars ! (byte mod length nonce_chars)] else result)"

text \<open>
  The random source is the sequence of bytes that \<^verbatim>\<open>crypto.getRandomValues\<close> delivers:
  \<open>random i\<close> is the \<open>i\<close>-th byte drawn, and \<open>pos\<close> counts the bytes drawn so far.
  \<^verbatim>\<open>getRandomValues\<close> (Web Crypto) raises a QuotaExceededError when more than 65536
  bytes are requested at once. The \<^verbatim>\<open>while\<close> loop need not end, so the function is
  partial: \<open>None\<close> is a run that draws bytes for ever.
\<close>

definition quota :: nat where
  "quota = 65536"

partial_function (option) generateNonce_loop ::
  "(nat \<Rightarrow> nat) \<Rightarrow> nat \<Rightarrow> nat \<Rightarrow> jsstring \<Rightarrow> jsstring outcome option" where
  "generateNonce_loop random len pos result =
     (if length result < len then
        (if len - length result > quota then Some (Throw (js ''QuotaExceededError''))
         else generateNonce_loop random len (pos + (len - length result))
                (fill len (map random [pos..<pos + (len - length result)]) result))
      else Some (Return result))"

text \<open>\<^verbatim>\<open>generateNonce(length = 16)\<close>.\<close>

definition generateNonce :: "(nat \<Rightarrow> nat) \<Rightarrow> nat option \<Rightarrow> jsstring outcome option" where
  "generateNonce random len =
     generateNonce_loop random (case len of None \<Rightarrow> 16 | Some l \<Rightarrow> l) 0 []"

subsection \<open>The sampling as the specification words it\<close>

text \<open>The bytes below 248 among the bytes \<open>i, \<dots>, j - 1\<close> of the source, in the order drawn,
  and the character of a byte.\<close>

definition accepted :: "(nat \<Rightarrow> nat) \<Rightarrow> nat \<Rightarrow> nat \<Rightarrow> nat list" where
  "accepted random i j = filter (\<lambda>byte. byte < 248) (map random [i..<j])"

definition nonce_char :: "nat \<Rightarrow> nat" where
  "nonce_char byte = nonce_chars ! (byte mod 62)"

section \<open>The message record (types.ts)\<close>

record SIWAMessage =
  domain :: jsstring
  address :: jsstring
  statement :: "jsstring option"
  uri :: jsstring
  version :: jsstring
  chainId :: jsstring
  nonce :: jsstring
  issuedAt :: jsstring
  expirationTime :: "jsstring option"
  notBefore :: "jsstring option"
  requestId :: "jsstring option"
  resources :: "jsstring list option"

section \<open>serializeMessage (message.js)\<close>

definition header_suffix :: jsstring where
  "header_suffix = js '' wants you to sign in with your Solana account:''"

definition optional_line :: "string \<Rightarrow> jsstring option \<Rightarrow> jsstring list" where
  "optional_line label v =
     (case v of
        None \<Rightarrow> []
      | Some s \<Rightarrow> if s \<noteq> [] then [js label @ s] else [])"

definition serializeLines :: "SIWAMessage \<Rightarrow> jsstring list" where
  "serializeLines m =
     [domain m @ header_suffix, address m]
     @ (case statement m of
          None \<Rightarrow> []
        | Some s \<Rightarrow> if s \<noteq> [] then [[], s] else [])
     @ [[]]
     @ [js ''URI: '' @ uri m,
        js ''Version: '' @ version m,
        js ''Chain ID: '' @ chainId m,
        js ''Nonce: '' @ nonce m,
        js ''Issued At: '' @ issuedAt m]
     @ optional_line ''Expiration Time: '' (expirationTime m)
     @ optional_line ''Not Before: '' (notBefore m)
     @ optional_line ''Request ID: '' (requestId m)
     @ (case resources m of
          None \<Rightarrow> []
        | Some rs \<Rightarrow> if 0 < length rs then js ''Resources:'' # map (\<lambda>r. js ''- '' @ r) rs else [])"

definition serializeMessage :: "SIWAMessage \<Rightarrow> jsstring" where
  "serializeMessage m = join_lines (serializeLines m)"

section \<open>parseMessage (message.js)\<close>

text \<open>\<^verbatim>\<open>/^(.+) wants you to sign in with your Solana account:$/\<close>: the line is a non-empty
  group without line terminators followed by the fixed suffix; the group is the domain.\<close>

definition headerMatch :: "jsstring \<Rightarrow> jsstring option" where
  "headerMatch line =
     (let n = length line - length header_suffix; d = take n line
      in if length header_suffix < length line \<and> drop n line = header_suffix
            \<and> list_all (\<lambda>c. \<not> isLineTerminator c) d
         then Some d else None)"

text \<open>\<^verbatim>\<open>/^([^:]+):\s*(.+)$/\<close>: group 1 is the non-empty text before the first colon.
  The greedy \<^verbatim>\<open>\s*\<close> takes all the white space after the colon; what is left is group 2
  and must be free of line terminators. When only white space follows the colon the
  matcher backtracks one code unit, which becomes group 2 unless it is a line terminator.\<close>

definition fieldMatch :: "jsstring \<Rightarrow> (jsstring \<times> jsstring) option" where
  "fieldMatch line =
     (let k = takeWhile (\<lambda>c. c \<noteq> 58) line
      in if k = [] \<or> length k = length line then None
         else (let rest = drop (Suc (length k)) line; v = dropWhile isWhiteSpace rest
               in if v \<noteq> [] then
                    (if list_all (\<lambda>c. \<not> isLineTerminator c) v then Some (k, v) else None)
                  else if rest = [] then None
                  else if isLineTerminator (last rest) then None
                  else Some (k, [last rest])))"

text \<open>The first loop: from line index 2, stop at the first line starting with \<^verbatim>\<open>URI:\<close>;
  before it, the first line that is non-blank after trimming is the statement. The result
  carries the index of the \<^verbatim>\<open>URI:\<close> line when there is one.\<close>

fun scanStatement :: "jsstring list \<Rightarrow> nat \<Rightarrow> jsstring option \<Rightarrow> jsstring option \<times> nat option" where
  "scanStatement [] i st = (st, None)"
| "scanStatement (line # rest) i st =
     (if startsWith line (js ''URI:'') then (st, Some i)
      else scanStatement rest (Suc i)
             (if trim line \<noteq> [] \<and> \<not> truthy st then Some (trim line) else st))"

text \<open>The second loop, over the lines from \<^verbatim>\<open>fieldStartIndex\<close> on. The object
  \<^verbatim>\<open>fields\<close> is read only at the eight known keys, none of which is inherited from
  \<^verbatim>\<open>Object.prototype\<close>, so it is a finite map.\<close>

fun parseFields ::
  "jsstring list \<Rightarrow> (jsstring \<rightharpoonup> jsstring) \<Rightarrow> jsstring list \<Rightarrow> bool
     \<Rightarrow> (jsstring \<rightharpoonup> jsstring) \<times> jsstring list" where
  "parseFields [] fieldmap res inResources = (fieldmap, res)"
| "parseFields (line # rest) fieldmap res inResources =
     (if line = js ''Resources:'' then parseFields rest fieldmap res True
      else if inResources \<and> startsWith line (js ''- '') then
        parseFields rest fieldmap (res @ [drop 2 line]) inResources
      else (case fieldMatch line of
              Some (k, v) \<Rightarrow> parseFields rest (fieldmap(k \<mapsto> v)) res False
            | None \<Rightarrow> parseFields rest fieldmap res inResources))"

text \<open>The check of the required fields, in the order of the array \<^verbatim>\<open>required\<close>; the
  result is the name of the first one that is missing.\<close>

fun firstMissing :: "(jsstring \<rightharpoonup> jsstring) \<Rightarrow> string list \<Rightarrow> string option" where
  "firstMissing fieldmap [] = None"
| "firstMissing fieldmap (f # fs) =
     (if truthy (fieldmap (js f)) then firstMissing fieldmap fs else Some f)"

definition required :: "string list" where
  "required = [''URI'', ''Version'', ''Chain ID'', ''Nonce'', ''Issued At'']"

text \<open>A thrown \<^verbatim>\<open>Error\<close> is \<open>Inl\<close> of its message.\<close>

definition parseMessage :: "jsstring \<Rightarrow> jsstring + SIWAMessage" where
  "parseMessage text =
     (let lines = split_on 10 text
      in case (case lines of [] \<Rightarrow> None | l0 # _ \<Rightarrow> headerMatch l0) of
           None \<Rightarrow> Inl (js ''Invalid SIWA message: missing header'')
         | Some dmn \<Rightarrow>
             (let addr = (case lines of _ # l1 # _ \<Rightarrow> Some (trim l1) | _ \<Rightarrow> None)
              in if \<not> truthy addr then Inl (js ''Invalid SIWA message: missing address'')
                 else
                   (let (stmt, found) = scanStatement (drop 2 lines) 2 None;
                        fieldStartIndex = (case found of None \<Rightarrow> 2 | Some i \<Rightarrow> i);
                        (fieldmap, res) = parseFields (drop fieldStartIndex lines) Map.empty [] False
                    in case firstMissing fieldmap required of
                         Some f \<Rightarrow> Inl (js ''Invalid SIWA message: missing '' @ js f)
                       | None \<Rightarrow>
                           Inr \<lparr> domain = dmn,
                                 address = the addr,
                                 statement = stmt,
                                 uri = the (fieldmap (js ''URI'')),
                                 version = the (fieldmap (js ''Version'')),
                                 chainId = the (fieldmap (js ''Chain ID'')),
                                 nonce = the (fieldmap (js ''Nonce'')),
                                 issuedAt = the (fieldmap (js ''Issued At'')),
                                 expirationTime = fieldmap (js ''Expiration Time''),
                                 notBefore = fieldmap (js ''Not Before''),
                                 requestId = fieldmap (js ''Request ID''),
                                 resources = (if 0 < length res then Some res else None) \<rparr>)))"

section \<open>validateTiming (message.js)\<close>

text \<open>
  \<^verbatim>\<open>new Date(s)\<close> is a parameter: \<open>date s\<close> is the time value in milliseconds
  since the epoch, \<open>None\<close> for an Invalid Date (time value NaN). Every comparison with NaN
  is false. \<open>now\<close> is the reading of the clock, always a valid time. The result object
  \<^verbatim>\<open>{valid, error?}\<close> is a record.
\<close>

record timing_result =
  valid :: bool
  timing_error :: "jsstring option"

definition maxSkew :: int where
  "maxSkew = 5 * 60 * 1000"

definition validateTiming :: "(jsstring \<Rightarrow> int option) \<Rightarrow> int \<Rightarrow> SIWAMessage \<Rightarrow> timing_result" where
  "validateTiming date now m =
     (if truthy (expirationTime m) \<and>
         (case date (the (expirationTime m)) of None \<Rightarrow> False | Some expiration \<Rightarrow> now > expiration)
      then \<lparr> valid = False, timing_error = Some (js ''Message has expired'') \<rparr>
      else if truthy (notBefore m) \<and>
         (case date (the (notBefore m)) of None \<Rightarrow> False | Some nb \<Rightarrow> now < nb)
      then \<lparr> valid = False, timing_error = Some (js ''Message not yet valid'') \<rparr>
      else if (case date (issuedAt m) of None \<Rightarrow> False | Some ia \<Rightarrow> ia > now + maxSkew)
      then \<lparr> valid = False, timing_error = Some (js ''Message issued in the future'') \<rparr>
      else \<lparr> valid = True, timing_error = None \<rparr>)"

subsection \<open>The timing rules as the specification words them\<close>

text \<open>The time an optional timestamp denotes: none when the field is absent or is not a
  valid date.\<close>

definition timestamp :: "(jsstring \<Rightarrow> int option) \<Rightarrow> jsstring option \<Rightarrow> int option" where
  "timestamp date ts = (case ts of None \<Rightarrow> None | Some s \<Rightarrow> date s)"

definition expired :: "(jsstring \<Rightarrow> int option) \<Rightarrow> int \<Rightarrow> SIWAMessage \<Rightarrow> bool" where
  "expired date now m =
     (case timestamp date (expirationTime m) of None \<Rightarrow> False | Some t \<Rightarrow> now > t)"

definition not_yet_valid :: "(jsstring \<Rightarrow> int option) \<Rightarrow> int \<Rightarrow> SIWAMessage \<Rightarrow> bool" where
  "not_yet_valid date now m =
     (case timestamp date (notBefore m) of None \<Rightarrow> False | Some t \<Rightarrow> now < t)"

definition issued_in_future :: "(jsstring \<Rightarrow> int option) \<Rightarrow> int \<Rightarrow> SIWAMessage \<Rightarrow> bool" where
  "issued_in_future date now m =
     (case date (issuedAt m) of None \<Rightarrow> False | Some t \<Rightarrow> t > now + 5 * 60 * 1000)"

definition invalid :: "string \<Rightarrow> timing_result" where
  "invalid e = \<lparr> valid = False, timing_error = Some (js e) \<rparr>"

definition spec_validateTiming :: "(jsstring \<Rightarrow> int option) \<Rightarrow> int \<Rightarrow> SIWAMessage \<Rightarrow> timing_result" where
  "spec_validateTiming date now m =
     (if expired date now m then invalid ''Message has expired''
      else if not_yet_valid date now m then invalid ''Message not yet valid''
      else if issued_in_future date now m then invalid ''Message issued in the future''
      else \<lparr> valid = True, timing_error = None \<rparr>)"

section \<open>Signature verification (verify.js)\<close>

text \<open>
  The collaborators of the verifier that are not part of the repository are parameters,
  collected in a record: the \<^verbatim>\<open>PublicKey\<close> class of the Solana library, the base58
  and base64 decoders, the UTF-8 encoder, the Ed25519 primitive of tweetnacl,
  \<^verbatim>\<open>Date\<close> (parsing and \<^verbatim>\<open>toISOString\<close>), whether \<^verbatim>\<open>new URL\<close> accepts a string,
  and the SHA-256 digest in base64url. A call that may throw returns \<open>None\<close> (or \<open>Inl\<close>
  of the message of the error, where the code reads it) in that case.
\<close>

type_synonym bytes = "nat list"

record platform =
  Date_parse :: "jsstring \<Rightarrow> int option"
  PublicKey_new :: "jsstring \<Rightarrow> bytes option"
  isOnCurve :: "bytes \<Rightarrow> bool option"
  bs58_decode :: "jsstring \<Rightarrow> jsstring + bytes"
  Buffer_from_base64 :: "jsstring \<Rightarrow> bytes option"
  TextEncoder_encode :: "jsstring \<Rightarrow> bytes"
  nacl_verify :: "bytes \<Rightarrow> bytes \<Rightarrow> bytes \<Rightarrow> bool option"
  URL_parses :: "jsstring \<Rightarrow> bool"
  toISOString :: "int \<Rightarrow> jsstring"
  sha256_base64url :: "jsstring \<Rightarrow> jsstring"

definition isValidSolanaAddress :: "platform \<Rightarrow> jsstring \<Rightarrow> bool" where
  "isValidSolanaAddress P addr =
     (case PublicKey_new P addr of
        None \<Rightarrow> False
      | Some pubkey \<Rightarrow> (case isOnCurve P pubkey of None \<Rightarrow> False | Some b \<Rightarrow> b))"

definition verifyEd25519Signature :: "platform \<Rightarrow> bytes \<Rightarrow> bytes \<Rightarrow> bytes \<Rightarrow> bool" where
  "verifyEd25519Signature P msg sig publicKey =
     (case nacl_verify P msg sig publicKey of None \<Rightarrow> False | Some b \<Rightarrow> b)"

record verify_options =
  opt_domain :: "jsstring option"
  opt_nonce :: "jsstring option"
  skipTimeCheck :: "bool option"

record SIWAVerificationResult =
  success :: bool
  message :: "SIWAMessage option"
  error :: "jsstring option"

definition failure :: "jsstring \<Rightarrow> SIWAVerificationResult" where
  "failure e = \<lparr> success = False, message = None, error = Some e \<rparr>"

text \<open>\<^verbatim>\<open>options?.domain\<close>, \<^verbatim>\<open>options?.nonce\<close> and \<^verbatim>\<open>options?.skipTimeCheck\<close>.\<close>

definition options_domain :: "verify_options option \<Rightarrow> jsstring option" where
  "options_domain options = (case options of None \<Rightarrow> None | Some opts \<Rightarrow> opt_domain opts)"

definition options_nonce :: "verify_options option \<Rightarrow> jsstring option" where
  "options_nonce options = (case options of None \<Rightarrow> None | Some opts \<Rightarrow> opt_nonce opts)"

definition options_skipTimeCheck :: "verify_options option \<Rightarrow> bool" where
  "options_skipTimeCheck options =
     (case options of None \<Rightarrow> False | Some opts \<Rightarrow> (skipTimeCheck opts = Some True))"

text \<open>The decimal digits of a number, as a template literal prints it.\<close>

fun toString :: "nat \<Rightarrow> jsstring" where
  "toString n = (if n < 10 then [48 + n] else toString (n div 10) @ [48 + n mod 10])"

text \<open>The nested \<^verbatim>\<open>try\<close> around the decoders: base58 first, base64 when that throws,
  \<open>None\<close> when both throw.\<close>

definition decodeSignature :: "platform \<Rightarrow> jsstring \<Rightarrow> bytes option" where
  "decodeSignature P signature =
     (case bs58_decode P signature of
        Inr signatureBytes \<Rightarrow> Some signatureBytes
      | Inl _ \<Rightarrow> Buffer_from_base64 P signature)"

text \<open>The body of the outer \<^verbatim>\<open>try\<close> of \<^verbatim>\<open>verify\<close>. The one statement in it that can
  throw outside an inner handler is the base58 decoding of the public key.\<close>

definition verify_body ::
  "platform \<Rightarrow> int \<Rightarrow> jsstring \<Rightarrow> jsstring \<Rightarrow> jsstring \<Rightarrow> verify_options option
     \<Rightarrow> SIWAVerificationResult outcome" where
  "verify_body P now messageText signature publicKey options =
     (case parseMessage messageText of
        Inl err \<Rightarrow> Return (failure (js ''Failed to parse message: '' @ err))
      | Inr msg \<Rightarrow>
          if \<not> isValidSolanaAddress P publicKey then
            Return (failure (js ''Invalid Solana public key''))
          else if address msg \<noteq> publicKey then
            Return (failure (js ''Public key does not match message address''))
          else if truthy (options_domain options) \<and> domain msg \<noteq> the (options_domain options) then
            Return (failure (js ''Domain mismatch: expected '' @ the (options_domain options)
                             @ js '', got '' @ domain msg))
          else if truthy (options_nonce options) \<and> nonce msg \<noteq> the (options_nonce options) then
            Return (failure (js ''Nonce mismatch''))
          else if \<not> options_skipTimeCheck options
                  \<and> \<not> valid (validateTiming (Date_parse P) now msg) then
            Return \<lparr> success = False, message = None,
                     error = timing_error (validateTiming (Date_parse P) now msg) \<rparr>
          else
            (case decodeSignature P signature of
               None \<Rightarrow> Return (failure (js ''Invalid signature encoding (expected base58 or base64)''))
             | Some signatureBytes \<Rightarrow>
                 if length signatureBytes \<noteq> 64 then
                   Return (failure (js ''Invalid signature length: '' @ toString (length signatureBytes)
                                    @ js '' (expected 64)''))
                 else
                   (case bs58_decode P publicKey of
                      Inl e \<Rightarrow> Throw e
                    | Inr publicKeyBytes \<Rightarrow>
                        if \<not> verifyEd25519Signature P (TextEncoder_encode P messageText)
                               signatureBytes publicKeyBytes then
                          Return (failure (js ''Signature verification failed''))
                        else Return \<lparr> success = True, message = Some msg, error = None \<rparr>)))"

text \<open>The outer \<^verbatim>\<open>catch\<close> turns whatever the body throws into a failure result.\<close>

definition verify ::
  "platform \<Rightarrow> int \<Rightarrow> jsstring \<Rightarrow> jsstring \<Rightarrow> jsstring \<Rightarrow> verify_options option
     \<Rightarrow> SIWAVerificationResult outcome" where
  "verify P now messageText signature publicKey options =
     (case verify_body P now messageText signature publicKey options of
        Return r \<Rightarrow> Return r
      | Throw e \<Rightarrow> Return (failure (js ''Verification error: '' @ e)))"

section \<open>Canonical messages\<close>

text \<open>A value the field loop reads back unchanged: non-empty, without leading white space
  (which \<^verbatim>\<open>\s*\<close> would swallow) and without line terminators (which \<^verbatim>\<open>.\<close> does not
  match).\<close>

definition field_value :: "jsstring \<Rightarrow> bool" where
  "field_value v \<longleftrightarrow>
     v \<noteq> [] \<and> \<not> isWhiteSpace (hd v) \<and> list_all (\<lambda>c. \<not> isLineTerminator c) v"

definition optional_field_value :: "jsstring option \<Rightarrow> bool" where
  "optional_field_value x = (case x of None \<Rightarrow> True | Some v \<Rightarrow> field_value v)"

text \<open>The messages whose serialization the parser reads back: every field fits on its
  line, the address and the statement are trimmed, the statement does not look like the
  \<^verbatim>\<open>URI:\<close> line, and optional fields are absent rather than empty.\<close>

definition canonical :: "SIWAMessage \<Rightarrow> bool" where
  "canonical m \<longleftrightarrow>
     domain m \<noteq> [] \<and> list_all (\<lambda>c. \<not> isLineTerminator c) (domain m)
   \<and> address m \<noteq> [] \<and> 10 \<notin> set (address m) \<and> trim (address m) = address m
   \<and> (case statement m of
         None \<Rightarrow> True
       | Some s \<Rightarrow> s \<noteq> [] \<and> 10 \<notin> set s \<and> trim s = s \<and> \<not> startsWith s (js ''URI:''))
   \<and> field_value (uri m) \<and> field_value (version m) \<and> field_value (chainId m)
   \<and> field_value (nonce m) \<and> field_value (issuedAt m)
   \<and> optional_field_value (expirationTime m)
   \<and> optional_field_value (notBefore m)
   \<and> optional_field_value (requestId m)
   \<and> (case resources m of
         None \<Rightarrow> True
       | Some rs \<Rightarrow> rs \<noteq> [] \<and> list_all (\<lambda>r. 10 \<notin> set r) rs)"

text \<open>The lines of the field block, and the field map the parser builds from them when it
  starts from the map \<open>f0\<close>.\<close>

definition field_lines :: "SIWAMessage \<Rightarrow> jsstring list" where
  "field_lines m =
     [js ''URI: '' @ uri m,
      js ''Version: '' @ version m,
      js ''Chain ID: '' @ chainId m,
      js ''Nonce: '' @ nonce m,
      js ''Issued At: '' @ issuedAt m]
     @ optional_line ''Expiration Time: '' (expirationTime m)
     @ optional_line ''Not Before: '' (notBefore m)
     @ optional_line ''Request ID: '' (requestId m)
     @ (case resources m of
          None \<Rightarrow> []
        | Some rs \<Rightarrow> if 0 < length rs then js ''Resources:'' # map (\<lambda>r. js ''- '' @ r) rs else [])"

definition opt_upd :: "(jsstring \<rightharpoonup> jsstring) \<Rightarrow> jsstring \<Rightarrow> jsstring option \<Rightarrow> (jsstring \<rightharpoonup> jsstring)" where
  "opt_upd f k x = (case x of None \<Rightarrow> f | Some v \<Rightarrow> f(k \<mapsto> v))"

definition fields_after :: "(jsstring \<rightharpoonup> jsstring) \<Rightarrow> SIWAMessage \<Rightarrow> (jsstring \<rightharpoonup> jsstring)" where
  "fields_after f0 m =
     opt_upd (opt_upd (opt_upd
       (f0(js ''URI'' \<mapsto> uri m, js ''Version'' \<mapsto> version m, js ''Chain ID'' \<mapsto> chainId m,
          js ''Nonce'' \<mapsto> nonce m, js ''Issued At'' \<mapsto> issuedAt m))
       (js ''Expiration Time'') (expirationTime m))
       (js ''Not Before'') (notBefore m))
       (js ''Request ID'') (requestId m)"

section \<open>The verification sequence as the specification words it\<close>

datatype verify_check =
  ParseCheck | PublicKeyCheck | AddressCheck | DomainCheck | NonceCheck | TimingCheck
  | DecodeCheck | LengthCheck | Ed25519Check

definition check_order :: "verify_check list" where
  "check_order = [ParseCheck, PublicKeyCheck, AddressCheck, DomainCheck, NonceCheck, TimingCheck,
                  DecodeCheck, LengthCheck, Ed25519Check]"

text \<open>
  What the caller asks for. An option that is absent or the empty string asks for nothing;
  the timing check is skipped when \<^verbatim>\<open>skipTimeCheck\<close> is \<^verbatim>\<open>true\<close>.
\<close>

definition requested :: "jsstring option \<Rightarrow> jsstring option" where
  "requested v = (case v of None \<Rightarrow> None | Some s \<Rightarrow> if s = [] then None else Some s)"

definition requested_domain :: "verify_options option \<Rightarrow> jsstring option" where
  "requested_domain options =
     (case options of None \<Rightarrow> None | Some opts \<Rightarrow> requested (opt_domain opts))"

definition requested_nonce :: "verify_options option \<Rightarrow> jsstring option" where
  "requested_nonce options =
     (case options of None \<Rightarrow> None | Some opts \<Rightarrow> requested (opt_nonce opts))"

definition timing_skipped :: "verify_options option \<Rightarrow> bool" where
  "timing_skipped options =
     (case options of None \<Rightarrow> False | Some opts \<Rightarrow> skipTimeCheck opts = Some True)"

text \<open>The timing rule a message breaks, first rule first. A time stamp that is absent,
  empty or not a date bounds nothing.\<close>

definition time_of :: "platform \<Rightarrow> jsstring option \<Rightarrow> int option" where
  "time_of P ts = (case requested ts of None \<Rightarrow> None | Some s \<Rightarrow> Date_parse P s)"

definition timing_failure :: "platform \<Rightarrow> int \<Rightarrow> SIWAMessage \<Rightarrow> jsstring option" where
  "timing_failure P now m =
     (if (case time_of P (expirationTime m) of None \<Rightarrow> False | Some t \<Rightarrow> now > t)
        then Some (js ''Message has expired'')
      else if (case time_of P (notBefore m) of None \<Rightarrow> False | Some t \<Rightarrow> now < t)
        then Some (js ''Message not yet valid'')
      else if (case Date_parse P (issuedAt m) of None \<Rightarrow> False | Some t \<Rightarrow> t > now + 5 * 60 * 1000)
        then Some (js ''Message issued in the future'')
      else None)"

text \<open>The bytes of the signature: its base58 decoding, or else its base64 decoding.\<close>

definition signature_bytes :: "platform \<Rightarrow> jsstring \<Rightarrow> bytes option" where
  "signature_bytes P sig =
     (case bs58_decode P sig of Inr b \<Rightarrow> Some b | Inl _ \<Rightarrow> Buffer_from_base64 P sig)"

text \<open>
  Whether a single check passes, stated for each check on its own, over the message text,
  the options record and the primitives of the platform: the public key is one the Solana
  library accepts and that lies on the curve, and the Ed25519 primitive accepts the
  decoded signature for the bytes of the text under the decoded public key. The checks on
  the message read the parsed message; they count as failed when there is none.
\<close>

fun passes ::
  "platform \<Rightarrow> int \<Rightarrow> jsstring \<Rightarrow> jsstring \<Rightarrow> jsstring \<Rightarrow> verify_options option
     \<Rightarrow> verify_check \<Rightarrow> bool" where
  "passes P now text sig pk options ParseCheck =
     (case parseMessage text of Inl _ \<Rightarrow> False | Inr _ \<Rightarrow> True)"
| "passes P now text sig pk options PublicKeyCheck =
     (case PublicKey_new P pk of None \<Rightarrow> False | Some key \<Rightarrow> isOnCurve P key = Some True)"
| "passes P now text sig pk options AddressCheck =
     (case parseMessage text of Inl _ \<Rightarrow> False | Inr m \<Rightarrow> address m = pk)"
| "passes P now text sig pk options DomainCheck =
     (case parseMessage text of
        Inl _ \<Rightarrow> False
      | Inr m \<Rightarrow> (case requested_domain options of None \<Rightarrow> True | Some d \<Rightarrow> domain m = d))"
| "passes P now text sig pk options NonceCheck =
     (case parseMessage text of
        Inl _ \<Rightarrow> False
      | Inr m \<Rightarrow> (case requested_nonce options of None \<Rightarrow> True | Some n \<Rightarrow> nonce m = n))"
| "passes P now text sig pk options TimingCheck =
     (case parseMessage text of
        Inl _ \<Rightarrow> False
      | Inr m \<Rightarrow> timing_skipped options \<or> timing_failure P now m = None)"
| "passes P now text sig pk options DecodeCheck =
     (case signature_bytes P sig of None \<Rightarrow> False | Some _ \<Rightarrow> True)"
| "passes P now text sig pk options LengthCheck =
     (case signature_bytes P sig of None \<Rightarrow> False | Some b \<Rightarrow> length b = 64)"
| "passes P now text sig pk options Ed25519Check =
     (case (signature_bytes P sig, bs58_decode P pk) of
        (Some b, Inr k) \<Rightarrow> nacl_verify P (TextEncoder_encode P text) b k = Some True
      | _ \<Rightarrow> False)"

text \<open>The error text a failed check reports.\<close>

fun check_error ::
  "platform \<Rightarrow> int \<Rightarrow> jsstring \<Rightarrow> jsstring \<Rightarrow> jsstring \<Rightarrow> verify_options option
     \<Rightarrow> verify_check \<Rightarrow> jsstring option" where
  "check_error P now text sig pk options ParseCheck =
     (case parseMessage text of Inl e \<Rightarrow> Some (js ''Failed to parse message: '' @ e) | Inr _ \<Rightarrow> None)"
| "check_error P now text sig pk options PublicKeyCheck = Some (js ''Invalid Solana public key'')"
| "check_error P now text sig pk options AddressCheck =
     Some (js ''Public key does not match message address'')"
| "check_error P now text sig pk options DomainCheck =
     (case parseMessage text of
        Inl _ \<Rightarrow> None
      | Inr m \<Rightarrow>
          (case requested_domain options of
             None \<Rightarrow> None
           | Some d \<Rightarrow> Some (js ''Domain mismatch: expected '' @ d @ js '', got '' @ domain m)))"
| "check_error P now text sig pk options NonceCheck = Some (js ''Nonce mismatch'')"
| "check_error P now text sig pk options TimingCheck =
     (case parseMessage text of Inl _ \<Rightarrow> None | Inr m \<Rightarrow> timing_failure P now m)"
| "check_error P now text sig pk options DecodeCheck =
     Some (js ''Invalid signature encoding (expected base58 or base64)'')"
| "check_error P now text sig pk options LengthCheck =
     (case signature_bytes P sig of
        None \<Rightarrow> None
      | Some b \<Rightarrow> Some (js ''Invalid signature length: '' @ toString (length b) @ js '' (expected 64)''))"
| "check_error P now text sig pk options Ed25519Check =
     (case bs58_decode P pk of
        Inl e \<Rightarrow> Some (js ''Verification error: '' @ e)
      | Inr _ \<Rightarrow> Some (js ''Signature verification failed''))"

definition spec_verify ::
  "platform \<Rightarrow> int \<Rightarrow> jsstring \<Rightarrow> jsstring \<Rightarrow> jsstring \<Rightarrow> verify_options option
     \<Rightarrow> SIWAVerificationResult" where
  "spec_verify P now text sig pk options =
     (case find (\<lambda>c. \<not> passes P now text sig pk options c) check_order of
        Some c \<Rightarrow> \<lparr> success = False, message = None, error = check_error P now text sig pk options c \<rparr>
      | None \<Rightarrow>
          \<lparr> success = True,
            message = (case parseMessage text of Inl _ \<Rightarrow> None | Inr m \<Rightarrow> Some m),
            error = None \<rparr>)"

definition reaches_signature_decoding ::
  "platform \<Rightarrow> int \<Rightarrow> jsstring \<Rightarrow> jsstring \<Rightarrow> jsstring \<Rightarrow> verify_options option \<Rightarrow> bool" where
  "reaches_signature_decoding P now text sig pk options =
     list_all (passes P now text sig pk options)
       [ParseCheck, PublicKeyCheck, AddressCheck, DomainCheck, NonceCheck, TimingCheck]"

definition encoding_error :: jsstring where
  "encoding_error = js ''Invalid signature encoding (expected base58 or base64)''"

definition length_error :: "nat \<Rightarrow> jsstring" where
  "length_error n = js ''Invalid signature length: '' @ toString n @ js '' (expected 64)''"

section \<open>The records of the stores (server/index.d.ts)\<close>

text \<open>A \<^verbatim>\<open>Date\<close> that the server builds is a valid time, in milliseconds since the epoch.\<close>

record NonceData =
  nd_pubkey :: jsstring
  nd_message :: jsstring
  nd_expiresAt :: int

record SessionData =
  sd_address :: jsstring
  sd_expiresAt :: int
  sd_scopes :: "jsstring list option"
  sd_message :: "SIWAMessage option"

record RateLimitData =
  rl_count :: int
  rl_windowStart :: int
  rl_expiresAt :: int

section \<open>The in-memory stores (server/dist/index.js)\<close>

text \<open>
  A store is a \<^verbatim>\<open>Map\<close> together with the timers that \<^verbatim>\<open>set\<close> has scheduled and that
  have not fired yet: a timer is the key it will delete and the time it is due.
  \<^verbatim>\<open>setTimeout\<close> replaces a delay below 1 or above 2147483647 by 1. The callbacks run when
  the event loop gets to the timers, which \<open>run_timers\<close> models; promise continuations run
  before that.
\<close>

record 'v memory_store =
  entries :: "jsstring \<rightharpoonup> 'v"
  timers :: "(jsstring \<times> int) list"

definition empty_store :: "'v memory_store" where
  "empty_store = \<lparr> entries = Map.empty, timers = [] \<rparr>"

definition timer_due :: "int \<Rightarrow> int \<Rightarrow> int" where
  "timer_due now delay = now + (if delay < 1 \<or> 2147483647 < delay then 1 else delay)"

definition run_timers :: "int \<Rightarrow> 'v memory_store \<Rightarrow> 'v memory_store" where
  "run_timers now s =
     \<lparr> entries = (\<lambda>k. if k \<in> set (map fst (filter (\<lambda>t. snd t \<le> now) (timers s))) then None
                       else entries s k),
       timers = filter (\<lambda>t. \<not> snd t \<le> now) (timers s) \<rparr>"

definition InMemoryNonceStore_set ::
  "int \<Rightarrow> NonceData memory_store \<Rightarrow> jsstring \<Rightarrow> NonceData \<Rightarrow> NonceData memory_store" where
  "InMemoryNonceStore_set now s name data =
     \<lparr> entries = (entries s)(name \<mapsto> data),
       timers = timers s @ [(name, timer_due now (nd_expiresAt data - now))] \<rparr>"

definition InMemoryNonceStore_get :: "NonceData memory_store \<Rightarrow> jsstring \<Rightarrow> NonceData option" where
  "InMemoryNonceStore_get s name = entries s name"

definition InMemoryNonceStore_delete :: "NonceData memory_store \<Rightarrow> jsstring \<Rightarrow> NonceData memory_store" where
  "InMemoryNonceStore_delete s name = s\<lparr>entries := (entries s)(name := None)\<rparr>"

definition InMemorySessionStore_set ::
  "int \<Rightarrow> SessionData memory_store \<Rightarrow> jsstring \<Rightarrow> SessionData \<Rightarrow> SessionData memory_store" where
  "InMemorySessionStore_set now s token session =
     \<lparr> entries = (entries s)(token \<mapsto> session),
       timers = timers s @ [(token, timer_due now (sd_expiresAt session - now))] \<rparr>"

definition InMemorySessionStore_delete ::
  "SessionData memory_store \<Rightarrow> jsstring \<Rightarrow> SessionData memory_store" where
  "InMemorySessionStore_delete s token = s\<lparr>entries := (entries s)(token := None)\<rparr>"

definition InMemorySessionStore_get ::
  "int \<Rightarrow> SessionData memory_store \<Rightarrow> jsstring \<Rightarrow> SessionData option \<times> SessionData memory_store" where
  "InMemorySessionStore_get now s token =
     (case entries s token of
        None \<Rightarrow> (None, s)
      | Some session \<Rightarrow>
          if sd_expiresAt session < now then (None, InMemorySessionStore_delete s token)
          else (Some session, s))"

subsection \<open>The nonce store of the later build (second document of server/dist/redis.js)\<close>

text \<open>The repository also holds a later build of the same module, whose nonce store skips
  records that are expired when they are set, checks the expiry when it reads, and has
  \<^verbatim>\<open>deleteAndGet\<close>, whose body runs without interruption.\<close>

definition InMemoryNonceStore_set_checked ::
  "int \<Rightarrow> NonceData memory_store \<Rightarrow> jsstring \<Rightarrow> NonceData \<Rightarrow> NonceData memory_store" where
  "InMemoryNonceStore_set_checked now s name data =
     (let delay = nd_expiresAt data - now
      in if delay \<le> 0 then s
         else \<lparr> entries = (entries s)(name \<mapsto> data),
                timers = timers s @ [(name, timer_due now delay)] \<rparr>)"

definition InMemoryNonceStore_get_checked ::
  "int \<Rightarrow> NonceData memory_store \<Rightarrow> jsstring \<Rightarrow> NonceData option \<times> NonceData memory_store" where
  "InMemoryNonceStore_get_checked now s name =
     (case entries s name of
        None \<Rightarrow> (None, s)
      | Some data \<Rightarrow>
          if nd_expiresAt data < now then (None, InMemoryNonceStore_delete s name)
          else (Some data, s))"

definition InMemoryNonceStore_deleteAndGet ::
  "int \<Rightarrow> NonceData memory_store \<Rightarrow> jsstring \<Rightarrow> NonceData option \<times> NonceData memory_store" where
  "InMemoryNonceStore_deleteAndGet now s name =
     (case entries s name of
        None \<Rightarrow> (None, s)
      | Some data \<Rightarrow>
          (if nd_expiresAt data < now then None else Some data, InMemoryNonceStore_delete s name))"

section \<open>The Redis stores (server/src/redis.ts)\<close>

text \<open>
  The Redis server is a map from keys to a string value and the time the key expires. The
  stores only write the JSON text of a record, which \<^verbatim>\<open>JSON.parse\<close> and \<^verbatim>\<open>new Date\<close>
  read back unchanged; other text under a key is \<open>Garbage\<close>, on which \<^verbatim>\<open>JSON.parse\<close>
  throws. A key is expired when the clock of the server is past its expiry time.
\<close>

datatype 'v stored = Encoded 'v | Garbage

type_synonym 'v redis = "jsstring \<rightharpoonup> ('v stored \<times> int)"

definition redis_get :: "int \<Rightarrow> 'v redis \<Rightarrow> jsstring \<Rightarrow> 'v stored option" where
  "redis_get now r key =
     (case r key of
        None \<Rightarrow> None
      | Some (v, expiry) \<Rightarrow> if now > expiry then None else Some v)"

definition redis_exists :: "int \<Rightarrow> 'v redis \<Rightarrow> jsstring \<Rightarrow> bool" where
  "redis_exists now r key = (case redis_get now r key of None \<Rightarrow> False | Some _ \<Rightarrow> True)"

definition redis_setex :: "int \<Rightarrow> 'v redis \<Rightarrow> jsstring \<Rightarrow> int \<Rightarrow> 'v stored \<Rightarrow> 'v redis" where
  "redis_setex now r key seconds v = r(key \<mapsto> (v, now + seconds * 1000))"

definition redis_del :: "'v redis \<Rightarrow> jsstring \<Rightarrow> 'v redis" where
  "redis_del r key = r(key := None)"

text \<open>The three stores share the shape of \<^verbatim>\<open>getKey\<close>, \<^verbatim>\<open>set\<close>, \<^verbatim>\<open>get\<close> and
  \<^verbatim>\<open>delete\<close>; \<open>expiry\<close> reads the \<^verbatim>\<open>expiresAt\<close> of the record.\<close>

definition getKey :: "jsstring \<Rightarrow> jsstring \<Rightarrow> jsstring" where
  "getKey keyPrefix name = keyPrefix @ name"

definition redis_store_set ::
  "('v \<Rightarrow> int) \<Rightarrow> jsstring \<Rightarrow> int \<Rightarrow> 'v redis \<Rightarrow> jsstring \<Rightarrow> 'v \<Rightarrow> 'v redis" where
  "redis_store_set expiry keyPrefix now r name data =
     (let ttlSeconds = (expiry data - now) div 1000
      in if ttlSeconds \<le> 0 then r
         else redis_setex now r (getKey keyPrefix name) ttlSeconds (Encoded data))"

definition redis_store_get ::
  "jsstring \<Rightarrow> int \<Rightarrow> 'v redis \<Rightarrow> jsstring \<Rightarrow> 'v option \<times> 'v redis" where
  "redis_store_get keyPrefix now r name =
     (case redis_get now r (getKey keyPrefix name) of
        None \<Rightarrow> (None, r)
      | Some (Encoded data) \<Rightarrow> (Some data, r)
      | Some Garbage \<Rightarrow> (None, redis_del r (getKey keyPrefix name)))"

definition redis_store_delete :: "jsstring \<Rightarrow> 'v redis \<Rightarrow> jsstring \<Rightarrow> 'v redis" where
  "redis_store_delete keyPrefix r name = redis_del r (getKey keyPrefix name)"

definition RedisNonceStore_set :: "jsstring \<Rightarrow> int \<Rightarrow> NonceData redis \<Rightarrow> jsstring \<Rightarrow> NonceData \<Rightarrow> NonceData redis" where
  "RedisNonceStore_set = redis_store_set nd_expiresAt"

definition RedisNonceStore_get ::
  "jsstring \<Rightarrow> int \<Rightarrow> NonceData redis \<Rightarrow> jsstring \<Rightarrow> NonceData option \<times> NonceData redis" where
  "RedisNonceStore_get = redis_store_get"

definition RedisNonceStore_delete :: "jsstring \<Rightarrow> NonceData redis \<Rightarrow> jsstring \<Rightarrow> NonceData redis" where
  "RedisNonceStore_delete = redis_store_delete"

definition RedisSessionStore_set ::
  "jsstring \<Rightarrow> int \<Rightarrow> SessionData redis \<Rightarrow> jsstring \<Rightarrow> SessionData \<Rightarrow> SessionData redis" where
  "RedisSessionStore_set = redis_store_set sd_expiresAt"

definition RedisSessionStore_get ::
  "jsstring \<Rightarrow> int \<Rightarrow> SessionData redis \<Rightarrow> jsstring \<Rightarrow> SessionData option \<times> SessionData redis" where
  "RedisSessionStore_get = redis_store_get"

definition RedisRateLimitStore_set ::
  "jsstring \<Rightarrow> int \<Rightarrow> RateLimitData redis \<Rightarrow> jsstring \<Rightarrow> RateLimitData \<Rightarrow> RateLimitData redis" where
  "RedisRateLimitStore_set = redis_store_set rl_expiresAt"

definition RedisRateLimitStore_get ::
  "jsstring \<Rightarrow> int \<Rightarrow> RateLimitData redis \<Rightarrow> jsstring \<Rightarrow> RateLimitData option \<times> RateLimitData redis" where
  "RedisRateLimitStore_get = redis_store_get"

text \<open>What \<^verbatim>\<open>set\<close> establishes: Redis drops a record no later than the record expires.\<close>

definition ttl_within :: "('v \<Rightarrow> int) \<Rightarrow> 'v redis \<Rightarrow> bool" where
  "ttl_within expiry r \<longleftrightarrow> (\<forall>key data e. r key = Some (Encoded data, e) \<longrightarrow> e \<le> expiry data)"

text \<open>\<^verbatim>\<open>RedisRateLimitStore.increment\<close>. The clock is read once per call. The call repeats
  itself when the key exists but \<^verbatim>\<open>get\<close> returns nothing, which is the case of a value that
  is not JSON: \<^verbatim>\<open>get\<close> has deleted it by then.\<close>

record increment_result =
  allowed :: bool
  count :: int
  resetTime :: int

function increment ::
  "jsstring \<Rightarrow> int \<Rightarrow> RateLimitData redis \<Rightarrow> jsstring \<Rightarrow> int \<Rightarrow> int
     \<Rightarrow> increment_result \<times> RateLimitData redis" where
  "increment keyPrefix now r identifier windowMinutes maxRequests =
     (let windowMs = windowMinutes * 60 * 1000;
          windowStart = now - windowMs
      in if \<not> redis_exists now r (getKey keyPrefix identifier) then
           (let resetTime = now + windowMs
            in (\<lparr> allowed = True, count = 1, resetTime = resetTime \<rparr>,
                RedisRateLimitStore_set keyPrefix now r identifier
                  \<lparr> rl_count = 1, rl_windowStart = now, rl_expiresAt = resetTime \<rparr>))
         else
           (case RedisRateLimitStore_get keyPrefix now r identifier of
              (None, r') \<Rightarrow> increment keyPrefix now r' identifier windowMinutes maxRequests
            | (Some data, r') \<Rightarrow>
                if rl_windowStart data \<ge> windowStart then
                  (if rl_count data \<ge> maxRequests then
                     (\<lparr> allowed = False, count = rl_count data, resetTime = rl_expiresAt data \<rparr>, r')
                   else
                     (\<lparr> allowed = True, count = rl_count data + 1, resetTime = rl_expiresAt data \<rparr>,
                      RedisRateLimitStore_set keyPrefix now r' identifier
                        (data\<lparr>rl_count := rl_count data + 1\<rparr>)))
                else
                  (let resetTime = now + windowMs
                   in (\<lparr> allowed = True, count = 1, resetTime = resetTime \<rparr>,
                       RedisRateLimitStore_set keyPrefix now r' identifier
                         \<lparr> rl_count = 1, rl_windowStart = now, rl_expiresAt = resetTime \<rparr>))))"
  by pat_completeness auto
termination
proof (relation "measure (\<lambda>(keyPrefix, now, r, identifier, windowMinutes, maxRequests).
                   if redis_exists now r (getKey keyPrefix identifier) then 1 else 0)")
  show "wf (measure (\<lambda>(keyPrefix, now, r, identifier, windowMinutes, maxRequests).
                   if redis_exists now r (getKey keyPrefix identifier) then 1 else (0::nat)))"
    by simp
next
  fix keyPrefix now and r :: "RateLimitData redis" and ident and windowMinutes maxRequests :: int
    and x :: int and xa :: int and x1 :: "RateLimitData option" and x2 :: "RateLimitData redis"
  assume ex: "\<not> \<not> redis_exists now r (getKey keyPrefix ident)"
    and get: "(x1, x2) = RedisRateLimitStore_get keyPrefix now r ident"
    and none: "x1 = None"
  from get none have "x2 = redis_del r (getKey keyPrefix ident) \<or> \<not> redis_exists now r (getKey keyPrefix ident)"
    by (auto simp add: RedisRateLimitStore_get_def redis_store_get_def redis_exists_def
        split: option.splits stored.splits)
  with ex have "\<not> redis_exists now x2 (getKey keyPrefix ident)"
    by (auto simp add: redis_exists_def redis_get_def redis_del_def)
  with ex show "((keyPrefix, now, x2, ident, windowMinutes, maxRequests),
                 (keyPrefix, now, r, ident, windowMinutes, maxRequests))
          \<in> measure (\<lambda>(keyPrefix, now, r, ident, windowMinutes, maxRequests).
                   if redis_exists now r (getKey keyPrefix ident) then 1 else 0)"
    by simp
qed

text \<open>A series of calls for one identifier, with 10 requests per 15 minutes, at the given
  times: what each call returns.\<close>

fun increment_calls :: "RateLimitData redis \<Rightarrow> int list \<Rightarrow> increment_result list" where
  "increment_calls r [] = []"
| "increment_calls r (t # ts) =
     (let (res, r') = increment (js ''siwa:ratelimit:'') t r (js ''203.0.113.7'') 15 10
      in res # increment_calls r' ts)"

section \<open>createMessage (message.js)\<close>

definition isAlnum :: "nat \<Rightarrow> bool" where
  "isAlnum c \<longleftrightarrow> (48 \<le> c \<and> c \<le> 57) \<or> (65 \<le> c \<and> c \<le> 90) \<or> (97 \<le> c \<and> c \<le> 122)"

text \<open>\<^verbatim>\<open>/^[a-zA-Z0-9][a-zA-Z0-9.-]*[a-zA-Z0-9]$/\<close>: at least two code units, the first
  and the last alphanumeric, the ones between alphanumeric, dot or hyphen.\<close>

definition isValidDomain :: "jsstring \<Rightarrow> bool" where
  "isValidDomain d =
     (if d = [] \<or> length d > 253 then False
      else if d = js ''localhost'' then True
      else 2 \<le> length d \<and> isAlnum (hd d) \<and> isAlnum (last d)
           \<and> list_all (\<lambda>c. isAlnum c \<or> c = 46 \<or> c = 45) (butlast (tl d)))"

text \<open>\<^verbatim>\<open>/^[1-9A-HJ-NP-Za-km-z]+$/\<close>, the base58 alphabet. This is the check of the
  address in message.js, on the text only.\<close>

definition isBase58Char :: "nat \<Rightarrow> bool" where
  "isBase58Char c \<longleftrightarrow>
     (49 \<le> c \<and> c \<le> 57) \<or> (65 \<le> c \<and> c \<le> 72) \<or> (74 \<le> c \<and> c \<le> 78) \<or> (80 \<le> c \<and> c \<le> 90)
     \<or> (97 \<le> c \<and> c \<le> 107) \<or> (109 \<le> c \<and> c \<le> 122)"

definition isValidSolanaAddress_text :: "jsstring \<Rightarrow> bool" where
  "isValidSolanaAddress_text a =
     (if a = [] \<or> length a < 32 \<or> length a > 44 then False
      else a \<noteq> [] \<and> list_all isBase58Char a)"

record createMessage_params =
  p_domain :: jsstring
  p_address :: jsstring
  p_uri :: jsstring
  p_chainId :: "jsstring option"
  p_statement :: "jsstring option"
  p_nonce :: "jsstring option"
  p_expirationMinutes :: "int option"
  p_resources :: "jsstring list option"
  p_requestId :: "jsstring option"

text \<open>\<open>random\<close> is what the random source delivers during the call; it is read only when
  no nonce is given. \<open>None\<close> is a call that does not return.\<close>

definition createMessage ::
  "platform \<Rightarrow> (nat \<Rightarrow> nat) \<Rightarrow> int \<Rightarrow> createMessage_params \<Rightarrow> SIWAMessage outcome option" where
  "createMessage P random now params =
     (if \<not> isValidDomain (p_domain params) then Some (Throw (js ''Invalid domain format''))
      else if \<not> URL_parses P (p_uri params) then Some (Throw (js ''Invalid URI format''))
      else if \<not> isValidSolanaAddress_text (p_address params) then
        Some (Throw (js ''Invalid Solana address format''))
      else
        (let expirationMinutes = (case p_expirationMinutes params of None \<Rightarrow> 5 | Some e \<Rightarrow> e);
             expiresAt = now + expirationMinutes * 60 * 1000
         in case (case p_nonce params of
                    Some n \<Rightarrow> Some (Return n)
                  | None \<Rightarrow> generateNonce random None) of
              None \<Rightarrow> None
            | Some (Throw e) \<Rightarrow> Some (Throw e)
            | Some (Return n) \<Rightarrow>
                Some (Return
                  \<lparr> domain = p_domain params,
                    address = p_address params,
                    statement = p_statement params,
                    uri = p_uri params,
                    version = js ''1'',
                    chainId = (case p_chainId params of None \<Rightarrow> js ''mainnet-beta'' | Some c \<Rightarrow> c),
                    nonce = n,
                    issuedAt = toISOString P now,
                    expirationTime = Some (toISOString P expiresAt),
                    notBefore = None,
                    requestId = p_requestId params,
                    resources = p_resources params \<rparr>)))"

section \<open>The server (server/dist/index.js)\<close>

record SIWAChallenge =
  challengeId :: jsstring
  ch_message :: jsstring
  messageHash :: jsstring
  ch_expiresAt :: jsstring

record SIWASession =
  token :: jsstring
  se_address :: jsstring
  se_expiresAt :: jsstring
  se_scopes :: "jsstring list option"

record server_options =
  cfg_domain :: jsstring
  cfg_uri :: jsstring
  challengeExpirationMinutes :: int
  sessionExpirationMinutes :: int
  cfg_statement :: "jsstring option"
  cfg_resources :: "jsstring list option"

text \<open>The state of a server with the default stores.\<close>

record server_state =
  nonceStore :: "NonceData memory_store"
  sessionStore :: "SessionData memory_store"

text \<open>\<^verbatim>\<open>createChallenge\<close>. \<open>random\<close> is what the random source delivers during the call.\<close>

definition createChallenge ::
  "platform \<Rightarrow> server_options \<Rightarrow> (nat \<Rightarrow> nat) \<Rightarrow> int \<Rightarrow> server_state \<Rightarrow> jsstring
     \<Rightarrow> (SIWAChallenge outcome \<times> server_state) option" where
  "createChallenge P cfg random now s pubkey =
     (if \<not> isValidSolanaAddress P pubkey then Some (Throw (js ''Invalid Solana public key''), s)
      else
        (case generateNonce random (Some 32) of
           None \<Rightarrow> None
         | Some (Throw e) \<Rightarrow> Some (Throw e, s)
         | Some (Return n) \<Rightarrow>
             (case createMessage P random now
                     \<lparr> p_domain = cfg_domain cfg, p_address = pubkey, p_uri = cfg_uri cfg,
                       p_chainId = None, p_statement = cfg_statement cfg, p_nonce = Some n,
                       p_expirationMinutes = Some (challengeExpirationMinutes cfg),
                       p_resources = cfg_resources cfg, p_requestId = None \<rparr> of
                None \<Rightarrow> None
              | Some (Throw e) \<Rightarrow> Some (Throw e, s)
              | Some (Return msg) \<Rightarrow>
                  (let messageText = serializeMessage msg;
                       expiresAt = now + challengeExpirationMinutes cfg * 60 * 1000;
                       s' = s\<lparr>nonceStore := InMemoryNonceStore_set now (nonceStore s) n
                              \<lparr> nd_pubkey = pubkey, nd_message = messageText,
                                nd_expiresAt = expiresAt \<rparr>\<rparr>
                   in Some (Return \<lparr> challengeId = js ''ch_'' @ take 16 (sha256_base64url P n),
                                     ch_message = messageText,
                                     messageHash = sha256_base64url P messageText,
                                     ch_expiresAt = toISOString P expiresAt \<rparr>, s')))))"

text \<open>\<^verbatim>\<open>verifySignature\<close>. \<open>tokenBytes\<close> is the base64url text of the 32 random bytes of
  \<^verbatim>\<open>generateSessionToken\<close>, and \<open>now\<close> the clock during the call. A successful result
  of \<^verbatim>\<open>verify\<close> carries the parsed message; reading the nonce of a result without one
  would be a \<^verbatim>\<open>TypeError\<close>, the branch that stands for it is never taken.\<close>

definition verifySignature ::
  "platform \<Rightarrow> server_options \<Rightarrow> jsstring \<Rightarrow> int \<Rightarrow> server_state \<Rightarrow> jsstring \<Rightarrow> jsstring \<Rightarrow> jsstring
     \<Rightarrow> SIWASession outcome \<times> server_state" where
  "verifySignature P cfg tokenBytes now s msg pubkey signature =
     (case verify P now msg signature pubkey
             (Some \<lparr> opt_domain = Some (cfg_domain cfg), opt_nonce = None, skipTimeCheck = None \<rparr>) of
        Throw e \<Rightarrow> (Throw e, s)
      | Return result \<Rightarrow>
          if \<not> success result then
            (Throw (case error result of None \<Rightarrow> js ''Verification failed'' | Some e \<Rightarrow> e), s)
          else
            (case message result of
               None \<Rightarrow> (Throw (js ''Cannot read properties of undefined''), s)
             | Some siwaMessage \<Rightarrow>
                 (case InMemoryNonceStore_get (nonceStore s) (nonce siwaMessage) of
                    None \<Rightarrow> (Throw (js ''Invalid or expired nonce''), s)
                  | Some nonceData \<Rightarrow>
                      if nd_pubkey nonceData \<noteq> pubkey then (Throw (js ''Public key mismatch''), s)
                      else
                        (let s1 = s\<lparr>nonceStore :=
                                     InMemoryNonceStore_delete (nonceStore s) (nonce siwaMessage)\<rparr>;
                             sessionToken = js ''siwa_'' @ tokenBytes;
                             expiresAt = now + sessionExpirationMinutes cfg * 60 * 1000;
                             sessionData = \<lparr> sd_address = pubkey, sd_expiresAt = expiresAt,
                                             sd_scopes = resources siwaMessage,
                                             sd_message = Some siwaMessage \<rparr>;
                             s2 = s1\<lparr>sessionStore :=
                                      InMemorySessionStore_set now (sessionStore s1) sessionToken
                                        sessionData\<rparr>
                         in (Return \<lparr> token = sessionToken, se_address = pubkey,
                                      se_expiresAt = toISOString P expiresAt,
                                      se_scopes = resources siwaMessage \<rparr>, s2)))))"

definition validateSession ::
  "int \<Rightarrow> server_state \<Rightarrow> jsstring \<Rightarrow> SessionData option \<times> server_state" where
  "validateSession now s tok =
     (let (r, st) = InMemorySessionStore_get now (sessionStore s) tok
      in (r, s\<lparr>sessionStore := st\<rparr>))"

definition revokeSession :: "server_state \<Rightarrow> jsstring \<Rightarrow> server_state" where
  "revokeSession s tok = s\<lparr>sessionStore := InMemorySessionStore_delete (sessionStore s) tok\<rparr>"

text \<open>What can happen to a server between two calls: any of its operations, with any
  arguments, and the event loop running the timers that are due.\<close>

datatype server_event =
    CreateChallenge "nat \<Rightarrow> nat" int jsstring
  | VerifySignature jsstring int jsstring jsstring jsstring
  | ValidateSession int jsstring
  | RevokeSession jsstring
  | RunTimers int

fun apply_event :: "platform \<Rightarrow> server_options \<Rightarrow> server_state \<Rightarrow> server_event \<Rightarrow> server_state" where
  "apply_event P cfg s (CreateChallenge random now pubkey) =
     (case createChallenge P cfg random now s pubkey of None \<Rightarrow> s | Some (_, s') \<Rightarrow> s')"
| "apply_event P cfg s (VerifySignature tokenBytes now msg pubkey signature) =
     snd (verifySignature P cfg tokenBytes now s msg pubkey signature)"
| "apply_event P cfg s (ValidateSession now tok) = snd (validateSession now s tok)"
| "apply_event P cfg s (RevokeSession tok) = revokeSession s tok"
| "apply_event P cfg s (RunTimers now) =
     s\<lparr>nonceStore := run_timers now (nonceStore s), sessionStore := run_timers now (sessionStore s)\<rparr>"

text \<open>An event that does not issue the nonce \<open>n\<close> again.\<close>

fun issues_other_nonce :: "jsstring \<Rightarrow> server_event \<Rightarrow> bool" where
  "issues_other_nonce n (CreateChallenge random now pubkey) =
     (generateNonce random (Some 32) \<noteq> Some (Return n))"
| "issues_other_nonce n _ = True"

section \<open>Consuming a nonce in the Redis store\<close>

text \<open>
  \<^verbatim>\<open>RedisNonceStore.deleteAndGet\<close> (redis.ts) as one call that nothing interrupts: the
  body of its \<^verbatim>\<open>try\<close> block, \<^verbatim>\<open>get\<close> and then \<^verbatim>\<open>delete\<close> when there is a record.
\<close>

definition RedisNonceStore_deleteAndGet ::
  "jsstring \<Rightarrow> int \<Rightarrow> NonceData redis \<Rightarrow> jsstring \<Rightarrow> NonceData option \<times> NonceData redis" where
  "RedisNonceStore_deleteAndGet keyPrefix now r name =
     (case RedisNonceStore_get keyPrefix now r name of
        (None, r1) \<Rightarrow> (None, r1)
      | (Some data, r1) \<Rightarrow> (Some data, RedisNonceStore_delete keyPrefix r1 name))"

text \<open>
  The same code where it can be interrupted. \<^verbatim>\<open>verifySignature\<close> awaits
  \<^verbatim>\<open>deleteAndGet\<close>, which awaits \<^verbatim>\<open>get\<close> and \<^verbatim>\<open>delete\<close>, which await the Redis
  commands GET and DEL. Each command is atomic on the Redis server; between two commands of
  one call the commands of another call can run. A call of \<^verbatim>\<open>verifySignature\<close> whose
  \<^verbatim>\<open>verify\<close> has succeeded is at one of these points: before GET, before DEL with the
  record it has read, back in \<^verbatim>\<open>verifySignature\<close> with the result of
  \<^verbatim>\<open>deleteAndGet\<close>, or finished: it has thrown, or it goes on to create the session for
  the public key.
\<close>

datatype consume_task =
    BeforeGet
  | BeforeDel NonceData
  | Resumed "NonceData option"
  | Finished "jsstring outcome"

record consume_call =
  call_keyPrefix :: jsstring
  call_now :: int
  call_nonce :: jsstring
  call_pubkey :: jsstring

fun consume_step ::
  "consume_call \<Rightarrow> NonceData redis \<Rightarrow> consume_task \<Rightarrow> NonceData redis \<times> consume_task" where
  "consume_step c r BeforeGet =
     (case RedisNonceStore_get (call_keyPrefix c) (call_now c) r (call_nonce c) of
        (None, r1) \<Rightarrow> (r1, Resumed None)
      | (Some data, r1) \<Rightarrow> (r1, BeforeDel data))"
| "consume_step c r (BeforeDel data) =
     (RedisNonceStore_delete (call_keyPrefix c) r (call_nonce c), Resumed (Some data))"
| "consume_step c r (Resumed None) = (r, Finished (Throw (js ''Invalid or expired nonce'')))"
| "consume_step c r (Resumed (Some nonceData)) =
     (r, Finished (if nd_pubkey nonceData \<noteq> call_pubkey c then Throw (js ''Public key mismatch'')
                   else Return (call_pubkey c)))"
| "consume_step c r (Finished x) = (r, Finished x)"

text \<open>Two calls with the same arguments, and a schedule that says which call takes the next
  step (\<open>False\<close> the first, \<open>True\<close> the second).\<close>

fun race ::
  "consume_call \<Rightarrow> bool list \<Rightarrow> NonceData redis \<times> consume_task \<times> consume_task
     \<Rightarrow> NonceData redis \<times> consume_task \<times> consume_task" where
  "race c [] st = st"
| "race c (second # schedule) (r, a, b) =
     (if second then (case consume_step c r b of (r1, b1) \<Rightarrow> race c schedule (r1, a, b1))
      else (case consume_step c r a of (r1, a1) \<Rightarrow> race c schedule (r1, a1, b)))"

section \<open>Replaying a verified message, as the specification words it\<close>

text \<open>The options \<^verbatim>\<open>verifySignature\<close> passes to \<^verbatim>\<open>verify\<close>, the nonce a message text carries,
  and the error of a replay: "Invalid or expired nonce" when the message still verifies,
  else the error of the verification.\<close>

definition server_verify_options :: "server_options \<Rightarrow> verify_options option" where
  "server_verify_options cfg =
     Some \<lparr> opt_domain = Some (cfg_domain cfg), opt_nonce = None, skipTimeCheck = None \<rparr>"

definition replay_error ::
  "platform \<Rightarrow> server_options \<Rightarrow> int \<Rightarrow> jsstring \<Rightarrow> jsstring \<Rightarrow> jsstring \<Rightarrow> jsstring" where
  "replay_error P cfg now msg pubkey signature =
     (let result = spec_verify P now msg signature pubkey (server_verify_options cfg)
      in if success result then js ''Invalid or expired nonce''
         else (case error result of None \<Rightarrow> js ''Verification failed'' | Some e \<Rightarrow> e))"

definition nonce_of :: "jsstring \<Rightarrow> jsstring" where
  "nonce_of msg = (case parseMessage msg of Inl _ \<Rightarrow> [] | Inr m \<Rightarrow> nonce m)"

section \<open>Example data\<close>

text \<open>A fragment of \<^verbatim>\<open>Date.parse\<close> on the two time stamps the examples use.\<close>

definition example_Date_parse :: "jsstring \<Rightarrow> int option" where
  "example_Date_parse s =
     (if s = js ''2026-02-01T12:00:00.000Z'' then Some 1769947200000
      else if s = js ''2026-02-01T12:05:00.000Z'' then Some 1769947500000
      else None)"

definition example_message :: SIWAMessage where
  "example_message =
     \<lparr> domain = js ''example.com'',
       address = js ''DRpbCBMxVnDK7maPM5tGv6MvB3v1sRMC86PZ8okm21hy'',
       statement = Some (js ''Sign in to Example App''),
       uri = js ''https://example.com/auth'',
       version = js ''1'',
       chainId = js ''mainnet-beta'',
       nonce = js ''A9A9BA9A9BA9A9BA9A9BA9A9BA9A9BA9'',
       issuedAt = js ''2026-02-01T12:00:00.000Z'',
       expirationTime = Some (js ''2026-02-01T12:05:00.000Z''),
       notBefore = None,
       requestId = None,
       resources = Some [js ''https://api.example.com''] \<rparr>"

text \<open>The example message with a statement that begins like the \<^verbatim>\<open>URI:\<close> line.\<close>

definition uri_statement_message :: SIWAMessage where
  "uri_statement_message = example_message\<lparr>statement := Some (js ''URI: see below'')\<rparr>"

text \<open>Stand-ins for the collaborators of the verifier: one key, one signature that the
  Ed25519 primitive accepts for the example text, one of the right length that it does not
  accept, and decoders that know a few strings.\<close>

definition example_key :: bytes where
  "example_key = replicate 32 1"

definition example_signature :: bytes where
  "example_signature = replicate 64 7"

definition forged_signature :: bytes where
  "forged_signature = replicate 64 9"

definition example_platform :: platform where
  "example_platform =
     \<lparr> Date_parse = example_Date_parse,
       PublicKey_new = (\<lambda>a. if a = address example_message then Some example_key else None),
       isOnCurve = (\<lambda>b. Some (b = example_key)),
       bs58_decode = (\<lambda>s. if s = address example_message then Inr example_key
                           else if s = js ''sig58'' then Inr example_signature
                           else if s = js ''forged58'' then Inr forged_signature
                           else if s = js ''short58'' then Inr [1, 2, 3]
                           else Inl (js ''Non-base58 character'')),
       Buffer_from_base64 = (\<lambda>s. if s = js ''c2ln'' then Some [115, 105, 103] else None),
       TextEncoder_encode = (\<lambda>s. s),
       nacl_verify = (\<lambda>msg sig key.
          if length sig \<noteq> 64 \<or> length key \<noteq> 32 then None
          else Some (msg = serializeMessage example_message \<and> sig = example_signature
                     \<and> key = example_key)),
       URL_parses = (\<lambda>u. u = js ''https://example.com/auth''),
       toISOString = (\<lambda>t. if t = 1769947200000 then js ''2026-02-01T12:00:00.000Z''
                           else if t = 1769947500000 then js ''2026-02-01T12:05:00.000Z''
                           else if t = 1769950860000 then js ''2026-02-01T13:01:00.000Z''
                           else js ''1970-01-01T00:00:00.000Z''),
       sha256_base64url = (\<lambda>s. js ''47DEQpj8HBSa-_TImW-5JCeuQeRkm5NMpJWZG3hSuFU'') \<rparr>"

definition example_text :: jsstring where
  "example_text = serializeMessage example_message"

definition example_now :: int where
  "example_now = 1769947260000"

text \<open>Three random sources: one that only delivers bytes that are rejected, one that only
  delivers zero, and a periodic one.\<close>

definition rejecting_source :: "nat \<Rightarrow> nat" where
  "rejecting_source i = 255"

definition zero_source :: "nat \<Rightarrow> nat" where
  "zero_source i = 0"

definition example_source :: "nat \<Rightarrow> nat" where
  "example_source i = [255, 0, 250, 61, 62, 247, 248, 1] ! (i mod 8)"

text \<open>A server, the state after it has issued the example message as a challenge at 12:00,
  and the same record in a Redis nonce store.\<close>

definition example_options :: server_options where
  "example_options =
     \<lparr> cfg_domain = js ''example.com'',
       cfg_uri = js ''https://example.com/auth'',
       challengeExpirationMinutes = 5,
       sessionExpirationMinutes = 60,
       cfg_statement = Some (js ''Sign in to Example App''),
       cfg_resources = Some [js ''https://api.example.com''] \<rparr>"

definition initial_state :: server_state where
  "initial_state = \<lparr> nonceStore = empty_store, sessionStore = empty_store \<rparr>"

definition example_record :: NonceData where
  "example_record =
     \<lparr> nd_pubkey = address example_message, nd_message = example_text,
       nd_expiresAt = 1769947500000 \<rparr>"

definition issued_state :: server_state where
  "issued_state =
     initial_state\<lparr>nonceStore :=
       InMemoryNonceStore_set 1769947200000 empty_store (nonce example_message) example_record\<rparr>"

definition example_call :: consume_call where
  "example_call =
     \<lparr> call_keyPrefix = js ''siwa:nonce:'', call_now = example_now,
       call_nonce = nonce example_message, call_pubkey = address example_message \<rparr>"

definition issued_redis :: "NonceData redis" where
  "issued_redis =
     RedisNonceStore_set (js ''siwa:nonce:'') 1769947200000 Map.empty (nonce example_message)
       example_record"

section \<open>The round trip of the message codec\<close>

subsection \<open>split and join\<close>

lemma split_on_no_sep: "sep \<notin> set l \<Longrightarrow> split_on sep l = [l]"
  by (induction l) auto

lemma split_on_append:
  "sep \<notin> set l \<Longrightarrow> split_on sep (l @ sep # r) = l # split_on sep r"
  by (induction l) auto

lemma split_on_join_lines:
  "ls \<noteq> [] \<Longrightarrow> list_all (\<lambda>l. 10 \<notin> set l) ls \<Longrightarrow> split_on 10 (join_lines ls) = ls"
proof (induction ls rule: join_lines.induct)
  case 1
  then show ?case by simp
next
  case (2 l)
  then show ?case by (simp add: split_on_no_sep)
next
  case (3 l v va)
  then show ?case by (simp add: split_on_append)
qed

subsection \<open>The regular expressions on the lines the serializer writes\<close>

lemma field_value_no_lf: "field_value v \<Longrightarrow> 10 \<notin> set v"
  by (auto simp add: field_value_def list_all_iff isLineTerminator_def)

lemma no_lt_no_lf: "list_all (\<lambda>c. \<not> isLineTerminator c) v \<Longrightarrow> 10 \<notin> set v"
  by (auto simp add: list_all_iff isLineTerminator_def)

lemma headerMatch_serialized:
  assumes "d \<noteq> []" "list_all (\<lambda>c. \<not> isLineTerminator c) d"
  shows "headerMatch (d @ header_suffix) = Some d"
  using assms by (simp add: headerMatch_def Let_def)

lemma fieldMatch_label:
  assumes "k \<noteq> []" "58 \<notin> set k" "field_value v"
  shows "fieldMatch (k @ 58 # 32 # v) = Some (k, v)"
proof -
  have tw: "takeWhile (\<lambda>c. c \<noteq> 58) (k @ 58 # 32 # v) = k"
    using assms(2) by (induction k) auto
  from assms(3) obtain c cs where v: "v = c # cs" "\<not> isWhiteSpace c"
    by (cases v) (auto simp add: field_value_def)
  have "isWhiteSpace 32" by (simp add: isWhiteSpace_def)
  then have dw: "dropWhile isWhiteSpace (32 # v) = v"
    using v by simp
  from assms(3) have lt: "list_all (\<lambda>c. \<not> isLineTerminator c) v"
    by (simp add: field_value_def)
  show ?thesis
    unfolding fieldMatch_def tw Let_def using assms(1) v(1) lt dw by simp
qed

lemma label_line_not_Resources:
  assumes "58 \<notin> set k"
  shows "k @ 58 # 32 # v \<noteq> js ''Resources:''"
proof
  assume eq: "k @ 58 # 32 # v = js ''Resources:''"
  have "takeWhile (\<lambda>c. c \<noteq> 58) (k @ 58 # 32 # v) = k"
    using assms by (induction k) auto
  with eq have k: "k = js ''Resources''" by (simp add: js_def)
  from eq show False unfolding k by (simp add: js_def)
qed

subsection \<open>The statement scan\<close>

lemma startsWith_URI_line: "startsWith (js ''URI: '' @ u) (js ''URI:'')"
  by (simp add: startsWith_def js_def)

lemma not_startsWith_empty: "\<not> startsWith [] (js ''URI:'')"
  by (simp add: startsWith_def js_def)

lemma trim_empty: "trim [] = []"
  by (simp add: trim_def)

lemma scanStatement_none:
  "scanStatement ([] # (js ''URI: '' @ u) # rest) i None = (None, Some (Suc i))"
  by (simp add: startsWith_URI_line not_startsWith_empty trim_empty)

lemma scanStatement_some:
  assumes "s \<noteq> []" "trim s = s" "\<not> startsWith s (js ''URI:'')"
  shows "scanStatement ([] # s # [] # (js ''URI: '' @ u) # rest) i None = (Some s, Some (Suc (Suc (Suc i))))"
  using assms by (simp add: startsWith_URI_line not_startsWith_empty trim_empty)

subsection \<open>The field loop\<close>

lemma opt_upd_apply:
  "opt_upd f k x k' = (if k' = k then (case x of None \<Rightarrow> f k | Some v \<Rightarrow> Some v) else f k')"
  by (simp add: opt_upd_def split: option.splits)

lemma parseFields_label:
  assumes "k \<noteq> []" "58 \<notin> set k" "field_value v"
  shows "parseFields ((k @ 58 # 32 # v) # rest) f r False = parseFields rest (f(k \<mapsto> v)) r False"
  using fieldMatch_label [OF assms] label_line_not_Resources [OF assms(2)]
  by simp

lemma parseFields_optional:
  assumes "k \<noteq> []" "58 \<notin> set k" "optional_field_value x" "js lab = k @ [58, 32]"
  shows "parseFields (optional_line lab x @ rest) f r False = parseFields rest (opt_upd f k x) r False"
proof (cases x)
  case None
  then show ?thesis by (simp add: optional_line_def opt_upd_def)
next
  case (Some v)
  with assms(3) have v: "field_value v" by (simp add: optional_field_value_def)
  then have "v \<noteq> []" by (simp add: field_value_def)
  with Some show ?thesis
    using parseFields_label [OF assms(1,2) v]
    by (simp add: optional_line_def opt_upd_def assms(4))
qed

lemma parseFields_resource_line:
  "line \<noteq> js ''Resources:'' \<Longrightarrow> startsWith line (js ''- '')
     \<Longrightarrow> parseFields (line # rest) f res True = parseFields rest f (res @ [drop 2 line]) True"
  by simp

lemma parseFields_resource_lines:
  "parseFields (map (\<lambda>r. js ''- '' @ r) rs) f res True = (f, res @ rs)"
proof (induction rs arbitrary: res)
  case Nil
  then show ?case by simp
next
  case (Cons r rs)
  have a: "js ''- '' @ r \<noteq> js ''Resources:''" by (simp add: js_def)
  have b: "startsWith (js ''- '' @ r) (js ''- '')" by (simp add: startsWith_def js_def)
  have c: "drop 2 (js ''- '' @ r) = r" by (simp add: js_def)
  have "parseFields (map (\<lambda>r. js ''- '' @ r) (r # rs)) f res True
          = parseFields (map (\<lambda>r. js ''- '' @ r) rs) f (res @ [r]) True"
    using parseFields_resource_line [OF a b] by (simp only: list.map c)
  then show ?case using Cons.IH [of "res @ [r]"] by simp
qed

lemma parseFields_resources:
  assumes "case rs of None \<Rightarrow> True | Some l \<Rightarrow> l \<noteq> []"
  shows "parseFields (case rs of
             None \<Rightarrow> []
           | Some l \<Rightarrow> if 0 < length l then js ''Resources:'' # map (\<lambda>r. js ''- '' @ r) l else [])
           f [] False
         = (f, case rs of None \<Rightarrow> [] | Some l \<Rightarrow> l)"
  using assms parseFields_resource_lines [of _ f "[]"]
  by (cases rs) simp_all

lemma label_split:
  "js ''URI: '' = js ''URI'' @ [58, 32]"
  "js ''Version: '' = js ''Version'' @ [58, 32]"
  "js ''Chain ID: '' = js ''Chain ID'' @ [58, 32]"
  "js ''Nonce: '' = js ''Nonce'' @ [58, 32]"
  "js ''Issued At: '' = js ''Issued At'' @ [58, 32]"
  "js ''Expiration Time: '' = js ''Expiration Time'' @ [58, 32]"
  "js ''Not Before: '' = js ''Not Before'' @ [58, 32]"
  "js ''Request ID: '' = js ''Request ID'' @ [58, 32]"
  by (simp_all add: js_def)

lemma label_ok:
  "js ''URI'' \<noteq> [] \<and> 58 \<notin> set (js ''URI'')"
  "js ''Version'' \<noteq> [] \<and> 58 \<notin> set (js ''Version'')"
  "js ''Chain ID'' \<noteq> [] \<and> 58 \<notin> set (js ''Chain ID'')"
  "js ''Nonce'' \<noteq> [] \<and> 58 \<notin> set (js ''Nonce'')"
  "js ''Issued At'' \<noteq> [] \<and> 58 \<notin> set (js ''Issued At'')"
  "js ''Expiration Time'' \<noteq> [] \<and> 58 \<notin> set (js ''Expiration Time'')"
  "js ''Not Before'' \<noteq> [] \<and> 58 \<notin> set (js ''Not Before'')"
  "js ''Request ID'' \<noteq> [] \<and> 58 \<notin> set (js ''Request ID'')"
  by (simp_all add: js_def)

lemma parseFields_labelled:
  assumes "k \<noteq> [] \<and> 58 \<notin> set k" "field_value v"
  shows "parseFields (((k @ [58, 32]) @ v) # rest) f r False = parseFields rest (f(k \<mapsto> v)) r False"
  using parseFields_label [of k v rest f r] assms by simp

lemma parseFields_optional_line:
  assumes "k \<noteq> [] \<and> 58 \<notin> set k" "js lab = k @ [58, 32]" "optional_field_value x"
  shows "parseFields (optional_line lab x @ rest) f r False = parseFields rest (opt_upd f k x) r False"
  using parseFields_optional [of k x lab rest f r] assms by simp

lemma parse_field_lines:
  assumes "canonical m"
  shows "parseFields (field_lines m) f0 [] False
           = (fields_after f0 m, (case resources m of None \<Rightarrow> [] | Some l \<Rightarrow> l))"
proof -
  from assms have fv: "field_value (uri m)" "field_value (version m)" "field_value (chainId m)"
    "field_value (nonce m)" "field_value (issuedAt m)"
    and ov: "optional_field_value (expirationTime m)" "optional_field_value (notBefore m)"
      "optional_field_value (requestId m)"
    and rs: "case resources m of None \<Rightarrow> True | Some l \<Rightarrow> l \<noteq> []"
    by (simp_all add: canonical_def split: option.splits)
  let ?R = "case resources m of
              None \<Rightarrow> []
            | Some rs \<Rightarrow> if 0 < length rs then js ''Resources:'' # map (\<lambda>r. js ''- '' @ r) rs else []"
  let ?f5 = "f0(js ''URI'' \<mapsto> uri m, js ''Version'' \<mapsto> version m, js ''Chain ID'' \<mapsto> chainId m,
          js ''Nonce'' \<mapsto> nonce m, js ''Issued At'' \<mapsto> issuedAt m)"
  let ?O = "optional_line ''Expiration Time: '' (expirationTime m)
     @ optional_line ''Not Before: '' (notBefore m)
     @ optional_line ''Request ID: '' (requestId m) @ ?R"
  have "parseFields (field_lines m) f0 [] False = parseFields ?O ?f5 [] False"
    unfolding field_lines_def label_split(1-5)
    by (simp only: append.simps parseFields_labelled [OF label_ok(1) fv(1)]
        parseFields_labelled [OF label_ok(2) fv(2)] parseFields_labelled [OF label_ok(3) fv(3)]
        parseFields_labelled [OF label_ok(4) fv(4)] parseFields_labelled [OF label_ok(5) fv(5)])
  also have "\<dots> = parseFields ?R (fields_after f0 m) [] False"
    unfolding fields_after_def
    by (simp only: parseFields_optional_line [OF label_ok(6) label_split(6) ov(1)]
        parseFields_optional_line [OF label_ok(7) label_split(7) ov(2)]
        parseFields_optional_line [OF label_ok(8) label_split(8) ov(3)])
  also have "\<dots> = (fields_after f0 m, (case resources m of None \<Rightarrow> [] | Some l \<Rightarrow> l))"
    by (rule parseFields_resources [OF rs])
  finally show ?thesis .
qed

lemma key_distinct:
  "distinct [js ''URI'', js ''Version'', js ''Chain ID'', js ''Nonce'', js ''Issued At'',
             js ''Expiration Time'', js ''Not Before'', js ''Request ID'']"
  by (simp add: js_def)

lemma key_distinct_rev:
  "distinct [js ''Request ID'', js ''Not Before'', js ''Expiration Time'', js ''Issued At'',
             js ''Nonce'', js ''Chain ID'', js ''Version'', js ''URI'']"
  by (simp add: js_def)

lemmas key_neq = key_distinct [simplified] key_distinct_rev [simplified]

lemma opt_upd_other: "k' \<noteq> k \<Longrightarrow> opt_upd f k x k' = f k'"
  by (simp add: opt_upd_def split: option.splits)

lemma opt_upd_same: "f k = None \<Longrightarrow> opt_upd f k x k = x"
  by (cases x) (simp_all add: opt_upd_def)

lemma fields_after_required:
  "fields_after f0 m (js ''URI'') = Some (uri m)"
  "fields_after f0 m (js ''Version'') = Some (version m)"
  "fields_after f0 m (js ''Chain ID'') = Some (chainId m)"
  "fields_after f0 m (js ''Nonce'') = Some (nonce m)"
  "fields_after f0 m (js ''Issued At'') = Some (issuedAt m)"
  by (simp_all add: fields_after_def opt_upd_other key_neq)

lemma fields_after_optional:
  assumes "f0 (js ''Expiration Time'') = None" "f0 (js ''Not Before'') = None"
    "f0 (js ''Request ID'') = None"
  shows "fields_after f0 m (js ''Expiration Time'') = expirationTime m"
    "fields_after f0 m (js ''Not Before'') = notBefore m"
    "fields_after f0 m (js ''Request ID'') = requestId m"
  using assms by (simp_all add: fields_after_def opt_upd_other opt_upd_same key_neq)

lemmas fields_after_empty =
  fields_after_required [of Map.empty] fields_after_optional [of Map.empty, simplified]

lemma firstMissing_fields_after:
  assumes "canonical m"
  shows "firstMissing (fields_after f0 m) required = None"
proof -
  from assms have "uri m \<noteq> []" "version m \<noteq> []" "chainId m \<noteq> []" "nonce m \<noteq> []" "issuedAt m \<noteq> []"
    by (simp_all add: canonical_def field_value_def)
  then show ?thesis by (simp add: required_def fields_after_required)
qed

lemma parse_lines:
  assumes "split_on 10 text = l0 # l1 # rest"
    and "headerMatch l0 = Some d"
    and "trim l1 = a" "a \<noteq> []"
    and "scanStatement rest 2 None = (st, Some i)"
    and "parseFields (drop i (l0 # l1 # rest)) Map.empty [] False = (f, res)"
    and "firstMissing f required = None"
  shows "parseMessage text =
     Inr \<lparr> domain = d, address = a, statement = st,
           uri = the (f (js ''URI'')), version = the (f (js ''Version'')),
           chainId = the (f (js ''Chain ID'')), nonce = the (f (js ''Nonce'')),
           issuedAt = the (f (js ''Issued At'')),
           expirationTime = f (js ''Expiration Time''), notBefore = f (js ''Not Before''),
           requestId = f (js ''Request ID''),
           resources = (if 0 < length res then Some res else None) \<rparr>"
  using assms by (simp add: parseMessage_def Let_def)

lemma serializeLines_shape:
  "serializeLines m =
     (domain m @ header_suffix) # address m #
       (case statement m of None \<Rightarrow> [] | Some s \<Rightarrow> if s \<noteq> [] then [[], s] else [])
       @ [] # field_lines m"
  by (simp add: serializeLines_def field_lines_def)

lemma optional_line_no_lf:
  assumes "optional_field_value x" "10 \<notin> set (js lab)"
  shows "list_all (\<lambda>l. 10 \<notin> set l) (optional_line lab x)"
  using assms
  by (cases x) (simp_all add: optional_line_def optional_field_value_def field_value_no_lf)

lemma field_lines_no_lf:
  assumes "canonical m"
  shows "list_all (\<lambda>l. 10 \<notin> set l) (field_lines m)"
proof -
  from assms have fv: "10 \<notin> set (uri m)" "10 \<notin> set (version m)" "10 \<notin> set (chainId m)"
    "10 \<notin> set (nonce m)" "10 \<notin> set (issuedAt m)"
    by (simp_all add: canonical_def field_value_no_lf)
  from assms have ov: "optional_field_value (expirationTime m)" "optional_field_value (notBefore m)"
      "optional_field_value (requestId m)"
    by (simp_all add: canonical_def)
  have lab: "10 \<notin> set (js ''URI: '')" "10 \<notin> set (js ''Version: '')" "10 \<notin> set (js ''Chain ID: '')"
    "10 \<notin> set (js ''Nonce: '')" "10 \<notin> set (js ''Issued At: '')"
    "10 \<notin> set (js ''Expiration Time: '')" "10 \<notin> set (js ''Not Before: '')"
    "10 \<notin> set (js ''Request ID: '')" "10 \<notin> set (js ''Resources:'')" "10 \<notin> set (js ''- '')"
    by (simp_all add: js_def)
  have rs: "list_all (\<lambda>l. 10 \<notin> set l)
      (case resources m of
          None \<Rightarrow> []
        | Some rs \<Rightarrow> if 0 < length rs then js ''Resources:'' # map (\<lambda>r. js ''- '' @ r) rs else [])"
    using assms lab(9,10)
    by (auto simp add: canonical_def list_all_iff split: option.splits)
  show ?thesis
    unfolding field_lines_def
    using fv lab(1-5) rs optional_line_no_lf [OF ov(1) lab(6)] optional_line_no_lf [OF ov(2) lab(7)]
      optional_line_no_lf [OF ov(3) lab(8)]
    by simp
qed

lemma serializeLines_no_lf:
  assumes "canonical m"
  shows "list_all (\<lambda>l. 10 \<notin> set l) (serializeLines m)"
proof -
  have "10 \<notin> set header_suffix" by (simp add: header_suffix_def js_def)
  moreover from assms have "10 \<notin> set (domain m)" "10 \<notin> set (address m)"
    by (simp_all add: canonical_def no_lt_no_lf)
  moreover from assms have "case statement m of None \<Rightarrow> True | Some s \<Rightarrow> 10 \<notin> set s"
    by (simp add: canonical_def split: option.splits)
  ultimately show ?thesis
    using field_lines_no_lf [OF assms]
    by (simp add: serializeLines_shape split: option.splits)
qed

lemma URI_line_first: "field_lines m = (js ''URI: '' @ uri m) # tl (field_lines m)"
  by (simp add: field_lines_def)

lemma parse_serialize:
  assumes "canonical m"
  shows "parseMessage (serializeMessage m) = Inr m"
proof -
  have split: "split_on 10 (serializeMessage m) = serializeLines m"
    unfolding serializeMessage_def
    by (rule split_on_join_lines) (simp add: serializeLines_shape, rule serializeLines_no_lf [OF assms])
  from assms have hd: "headerMatch (domain m @ header_suffix) = Some (domain m)"
    by (simp add: canonical_def headerMatch_serialized)
  from assms have ad: "trim (address m) = address m" "address m \<noteq> []"
    by (simp_all add: canonical_def)
  let ?S = "case statement m of None \<Rightarrow> [] | Some s \<Rightarrow> if s \<noteq> [] then [[], s] else []"
  let ?rest = "?S @ [] # field_lines m"
  have lines: "split_on 10 (serializeMessage m) = (domain m @ header_suffix) # address m # ?rest"
    by (simp only: split serializeLines_shape)
  have scan: "scanStatement ?rest 2 None = (statement m, Some (2 + length ?S + 1))"
  proof (cases "statement m")
    case None
    then show ?thesis
      using scanStatement_none [of "uri m" "tl (field_lines m)" 2] URI_line_first [of m] by simp
  next
    case (Some s)
    with assms have s: "s \<noteq> []" "trim s = s" "\<not> startsWith s (js ''URI:'')"
      by (simp_all add: canonical_def)
    from Some s(1) show ?thesis
      using scanStatement_some [OF s, of "uri m" "tl (field_lines m)" 2] URI_line_first [of m]
      by simp
  qed
  have drop: "drop (2 + length ?S + 1) ((domain m @ header_suffix) # address m # ?rest) = field_lines m"
    by simp
  have pf: "parseFields (drop (2 + length ?S + 1) ((domain m @ header_suffix) # address m # ?rest))
              Map.empty [] False
            = (fields_after Map.empty m, (case resources m of None \<Rightarrow> [] | Some l \<Rightarrow> l))"
    unfolding drop by (rule parse_field_lines [OF assms])
  from assms have res: "(if 0 < length (case resources m of None \<Rightarrow> [] | Some l \<Rightarrow> l)
        then Some (case resources m of None \<Rightarrow> [] | Some l \<Rightarrow> l) else None) = resources m"
    by (simp add: canonical_def split: option.splits)
  show ?thesis
    unfolding parse_lines [OF lines hd ad scan pf firstMissing_fields_after [OF assms]]
      fields_after_empty option.sel res
    by simp
qed

subsection \<open>A statement that starts with the URI label\<close>

lemma scanStatement_URI_statement:
  "startsWith s (js ''URI:'') \<Longrightarrow> scanStatement ([] # s # rest) i None = (None, Some (Suc i))"
  by (simp add: not_startsWith_empty trim_empty)

lemma parseFields_blank:
  "parseFields ([] # rest) f r False = parseFields rest f r False"
proof -
  have "[] \<noteq> js ''Resources:''" by (simp add: js_def)
  moreover have "fieldMatch [] = None" by (simp add: fieldMatch_def)
  ultimately show ?thesis by simp
qed

lemma parse_serialize_URI_statement:
  assumes c: "canonical (m\<lparr>statement := None\<rparr>)"
    and st: "statement m = Some (js ''URI'' @ 58 # 32 # v)"
    and v: "field_value v"
  shows "parseMessage (serializeMessage m) = Inr (m\<lparr>statement := None\<rparr>)"
proof -
  let ?m0 = "m\<lparr>statement := None\<rparr>"
  let ?s = "js ''URI'' @ 58 # 32 # v"
  have fl: "field_lines m = field_lines ?m0" by (simp add: field_lines_def)
  have shape: "serializeLines m =
      (domain m @ header_suffix) # address m # [] # ?s # [] # field_lines ?m0"
    by (simp add: serializeLines_shape st fl)
  have s_no_lf: "10 \<notin> set ?s"
    using field_value_no_lf [OF v] by (simp add: js_def)
  have "list_all (\<lambda>l. 10 \<notin> set l) (serializeLines ?m0)"
    by (rule serializeLines_no_lf [OF c])
  then have no_lf: "list_all (\<lambda>l. 10 \<notin> set l) (serializeLines m)"
    using s_no_lf by (simp add: shape serializeLines_shape [of ?m0])
  have lines: "split_on 10 (serializeMessage m) =
      (domain m @ header_suffix) # address m # [] # ?s # [] # field_lines ?m0"
    unfolding serializeMessage_def shape [symmetric]
    by (rule split_on_join_lines) (simp add: shape, rule no_lf)
  from c have hd: "headerMatch (domain m @ header_suffix) = Some (domain m)"
    by (simp add: canonical_def headerMatch_serialized)
  from c have ad: "trim (address m) = address m" "address m \<noteq> []"
    by (simp_all add: canonical_def)
  have sw: "startsWith ?s (js ''URI:'')" by (simp add: startsWith_def js_def)
  have scan: "scanStatement ([] # ?s # [] # field_lines ?m0) 2 None = (None, Some 3)"
    using scanStatement_URI_statement [OF sw, of "[] # field_lines ?m0" 2]
    by (simp add: numeral_3_eq_3)
  have "parseFields (?s # [] # field_lines ?m0) Map.empty [] False
          = parseFields (field_lines ?m0) [js ''URI'' \<mapsto> v] [] False"
    by (simp only: parseFields_label [OF conjunct1 [OF label_ok(1)] conjunct2 [OF label_ok(1)] v]
        parseFields_blank)
  then have pf: "parseFields (drop 3 ((domain m @ header_suffix) # address m # [] # ?s # []
                                 # field_lines ?m0)) Map.empty [] False
                 = (fields_after [js ''URI'' \<mapsto> v] ?m0,
                    (case resources ?m0 of None \<Rightarrow> [] | Some l \<Rightarrow> l))"
    by (simp add: parse_field_lines [OF c] numeral_3_eq_3)
  have f0: "[js ''URI'' \<mapsto> v] (js ''Expiration Time'') = None"
    "[js ''URI'' \<mapsto> v] (js ''Not Before'') = None"
    "[js ''URI'' \<mapsto> v] (js ''Request ID'') = None"
    by (simp_all add: key_neq)
  from c have res: "(if 0 < length (case resources ?m0 of None \<Rightarrow> [] | Some l \<Rightarrow> l)
        then Some (case resources ?m0 of None \<Rightarrow> [] | Some l \<Rightarrow> l) else None) = resources ?m0"
    by (simp add: canonical_def split: option.splits)
  show ?thesis
    unfolding parse_lines [OF lines hd ad scan pf firstMissing_fields_after [OF c]]
      fields_after_required fields_after_optional [OF f0] option.sel res
    by simp
qed

text \<open>
  C1 (as amended). For every canonical message the parser reads the serialization back
  field for field, and serializing the parsed message gives the same text again.
\<close>

theorem roundtrip_canonical:
  assumes "canonical m"
  shows "parseMessage (serializeMessage m) = Inr m
       \<and> (case parseMessage (serializeMessage m) of
            Inl e \<Rightarrow> False
          | Inr m' \<Rightarrow> serializeMessage m' = serializeMessage m)"
  using parse_serialize [OF assms] by simp

lemma canonical_example: "canonical example_message"
  by (simp add: canonical_def example_message_def field_value_def optional_field_value_def
      js_def trim_def startsWith_def isWhiteSpace_def isLineTerminator_def)

theorem roundtrip_canonical_witness:
  "canonical example_message
   \<and> parseMessage (serializeMessage example_message) = Inr example_message"
  using roundtrip_canonical [of example_message] canonical_example by simp

text \<open>
  The claim as the specification states it, for every valid message, fails: a statement is
  free text, and one that starts with \<^verbatim>\<open>URI:\<close> is taken for the first field line.
  The parser then returns a message without statement, which serializes to another text.
\<close>

lemma canonical_without_statement: "canonical (uri_statement_message\<lparr>statement := None\<rparr>)"
  by (simp add: canonical_def uri_statement_message_def example_message_def field_value_def optional_field_value_def
      js_def trim_def startsWith_def isWhiteSpace_def isLineTerminator_def)

lemma parse_uri_statement_message:
  "parseMessage (serializeMessage uri_statement_message) = Inr (uri_statement_message\<lparr>statement := None\<rparr>)"
proof (rule parse_serialize_URI_statement [OF canonical_without_statement])
  show "statement uri_statement_message = Some (js ''URI'' @ 58 # 32 # js ''see below'')"
    by (simp add: uri_statement_message_def js_def)
  show "field_value (js ''see below'')"
    by (simp add: field_value_def js_def isWhiteSpace_def isLineTerminator_def)
qed

theorem roundtrip_counterexample:
  "parseMessage (serializeMessage uri_statement_message) = Inr (uri_statement_message\<lparr>statement := None\<rparr>)
   \<and> uri_statement_message\<lparr>statement := None\<rparr> \<noteq> uri_statement_message
   \<and> serializeMessage (uri_statement_message\<lparr>statement := None\<rparr>) \<noteq> serializeMessage uri_statement_message"
proof -
  have a: "uri_statement_message\<lparr>statement := None\<rparr> \<noteq> uri_statement_message"
    by (simp add: uri_statement_message_def example_message_def)
  have b: "serializeMessage (uri_statement_message\<lparr>statement := None\<rparr>) \<noteq> serializeMessage uri_statement_message"
    by (simp add: serializeMessage_def serializeLines_def uri_statement_message_def example_message_def
        optional_line_def header_suffix_def js_def)
  from parse_uri_statement_message a b show ?thesis by simp
qed

section \<open>Properties of validateTiming\<close>

text \<open>
  C7. \<^verbatim>\<open>validateTiming\<close> applies its rules in order and the first failure wins: an
  expiration time in the past gives "Message has expired"; otherwise a not-before time in
  the future gives "Message not yet valid"; otherwise an issue time more than five minutes
  ahead of the clock gives "Message issued in the future"; otherwise the message is valid.
  In particular a message with neither expiration time nor not-before time whose issue time
  is not in the future is valid. The empty string is not a date (\<^verbatim>\<open>new Date('')\<close> is
  an Invalid Date), which is what makes the truthiness guards of the code agree with
  presence of the field.
\<close>

theorem validateTiming_rules:
  assumes "date [] = None"
  shows "validateTiming date now m = spec_validateTiming date now m
       \<and> (expirationTime m = None \<and> notBefore m = None \<and> \<not> issued_in_future date now m
            \<longrightarrow> validateTiming date now m = \<lparr> valid = True, timing_error = None \<rparr>)"
proof -
  have e: "(truthy (expirationTime m) \<and>
         (case date (the (expirationTime m)) of None \<Rightarrow> False | Some expiration \<Rightarrow> now > expiration))
        = expired date now m"
    using assms by (cases "expirationTime m") (auto simp: expired_def timestamp_def)
  have n: "(truthy (notBefore m) \<and>
         (case date (the (notBefore m)) of None \<Rightarrow> False | Some nb \<Rightarrow> now < nb))
        = not_yet_valid date now m"
    using assms by (cases "notBefore m") (auto simp: not_yet_valid_def timestamp_def)
  have i: "(case date (issuedAt m) of None \<Rightarrow> False | Some ia \<Rightarrow> ia > now + maxSkew)
        = issued_in_future date now m"
    by (simp add: issued_in_future_def maxSkew_def split: option.splits)
  have eq: "validateTiming date now m = spec_validateTiming date now m"
    unfolding validateTiming_def spec_validateTiming_def e n i by (simp add: invalid_def)
  have "expirationTime m = None \<Longrightarrow> \<not> expired date now m"
    and "notBefore m = None \<Longrightarrow> \<not> not_yet_valid date now m"
    by (simp_all add: expired_def not_yet_valid_def timestamp_def)
  with eq show ?thesis by (simp add: spec_validateTiming_def)
qed

theorem validateTiming_rules_witness:
  "example_Date_parse [] = None
   \<and> validateTiming example_Date_parse 1769947560000 example_message = invalid ''Message has expired''
   \<and> validateTiming example_Date_parse 1769947260000 example_message = \<lparr> valid = True, timing_error = None \<rparr>"
proof -
  have h: "example_Date_parse [] = None" by (simp add: example_Date_parse_def js_def)
  have x: "example_Date_parse (js ''2026-02-01T12:05:00.000Z'') = Some 1769947500000"
    by (simp add: example_Date_parse_def js_def)
  have y: "example_Date_parse (js ''2026-02-01T12:00:00.000Z'') = Some 1769947200000"
    by (simp add: example_Date_parse_def)
  show ?thesis
    using h validateTiming_rules [where date = example_Date_parse and now = 1769947560000 and m = example_message]
      validateTiming_rules [where date = example_Date_parse and now = 1769947260000 and m = example_message]
    by (simp add: spec_validateTiming_def expired_def not_yet_valid_def issued_in_future_def
        timestamp_def example_message_def x y)
qed

section \<open>Properties of verify\<close>

text \<open>The checks in terms of the functions of verify.js.\<close>

lemma case_requested_domain:
  "(case requested_domain options of None \<Rightarrow> a | Some d \<Rightarrow> f d)
     = (if truthy (options_domain options) then f (the (options_domain options)) else a)"
  by (auto simp add: requested_domain_def requested_def options_domain_def
      split: option.splits)

lemma case_requested_nonce:
  "(case requested_nonce options of None \<Rightarrow> a | Some n \<Rightarrow> f n)
     = (if truthy (options_nonce options) then f (the (options_nonce options)) else a)"
  by (auto simp add: requested_nonce_def requested_def options_nonce_def
      split: option.splits)

lemma timing_skipped_code: "timing_skipped options = options_skipTimeCheck options"
  by (simp add: timing_skipped_def options_skipTimeCheck_def)

lemma time_of_code:
  "time_of P ts = (if truthy ts then Date_parse P (the ts) else None)"
  by (auto simp add: time_of_def requested_def split: option.splits)

lemma validateTiming_failure:
  "validateTiming (Date_parse P) now m
     = \<lparr> valid = (timing_failure P now m = None), timing_error = timing_failure P now m \<rparr>"
  by (simp add: validateTiming_def timing_failure_def time_of_code maxSkew_def
      split: option.splits)

lemma signature_bytes_code: "signature_bytes P sig = decodeSignature P sig"
  by (simp add: signature_bytes_def decodeSignature_def)

lemma passes_code [simp]:
  "passes P now text sig pk options PublicKeyCheck = isValidSolanaAddress P pk"
  "passes P now text sig pk options DomainCheck =
     (case parseMessage text of
        Inl _ \<Rightarrow> False
      | Inr m \<Rightarrow> (truthy (options_domain options) \<longrightarrow> domain m = the (options_domain options)))"
  "passes P now text sig pk options NonceCheck =
     (case parseMessage text of
        Inl _ \<Rightarrow> False
      | Inr m \<Rightarrow> (truthy (options_nonce options) \<longrightarrow> nonce m = the (options_nonce options)))"
  "passes P now text sig pk options TimingCheck =
     (case parseMessage text of
        Inl _ \<Rightarrow> False
      | Inr m \<Rightarrow> (\<not> options_skipTimeCheck options \<longrightarrow> valid (validateTiming (Date_parse P) now m)))"
  "passes P now text sig pk options DecodeCheck =
     (case decodeSignature P sig of None \<Rightarrow> False | Some _ \<Rightarrow> True)"
  "passes P now text sig pk options LengthCheck =
     (case decodeSignature P sig of None \<Rightarrow> False | Some b \<Rightarrow> length b = 64)"
  "passes P now text sig pk options Ed25519Check =
     (case (decodeSignature P sig, bs58_decode P pk) of
        (Some b, Inr k) \<Rightarrow> verifyEd25519Signature P (TextEncoder_encode P text) b k
      | _ \<Rightarrow> False)"
proof -
  show "passes P now text sig pk options PublicKeyCheck = isValidSolanaAddress P pk"
    by (auto simp add: isValidSolanaAddress_def split: option.splits)
  show "passes P now text sig pk options DomainCheck =
     (case parseMessage text of
        Inl _ \<Rightarrow> False
      | Inr m \<Rightarrow> (truthy (options_domain options) \<longrightarrow> domain m = the (options_domain options)))"
    by (cases "parseMessage text") (simp_all add: case_requested_domain)
  show "passes P now text sig pk options NonceCheck =
     (case parseMessage text of
        Inl _ \<Rightarrow> False
      | Inr m \<Rightarrow> (truthy (options_nonce options) \<longrightarrow> nonce m = the (options_nonce options)))"
    by (cases "parseMessage text") (simp_all add: case_requested_nonce)
  show "passes P now text sig pk options TimingCheck =
     (case parseMessage text of
        Inl _ \<Rightarrow> False
      | Inr m \<Rightarrow> (\<not> options_skipTimeCheck options \<longrightarrow> valid (validateTiming (Date_parse P) now m)))"
    by (cases "parseMessage text") (auto simp add: timing_skipped_code validateTiming_failure)
  show "passes P now text sig pk options DecodeCheck =
     (case decodeSignature P sig of None \<Rightarrow> False | Some _ \<Rightarrow> True)"
    by (simp add: signature_bytes_code)
  show "passes P now text sig pk options LengthCheck =
     (case decodeSignature P sig of None \<Rightarrow> False | Some b \<Rightarrow> length b = 64)"
    by (simp add: signature_bytes_code)
  show "passes P now text sig pk options Ed25519Check =
     (case (decodeSignature P sig, bs58_decode P pk) of
        (Some b, Inr k) \<Rightarrow> verifyEd25519Signature P (TextEncoder_encode P text) b k
      | _ \<Rightarrow> False)"
    by (auto simp add: signature_bytes_code verifyEd25519Signature_def
        split: option.splits sum.splits)
qed

lemma check_error_code [simp]:
  "check_error P now text sig pk options DomainCheck =
     (case parseMessage text of
        Inl _ \<Rightarrow> None
      | Inr m \<Rightarrow>
          if truthy (options_domain options)
          then Some (js ''Domain mismatch: expected '' @ the (options_domain options)
                     @ js '', got '' @ domain m)
          else None)"
  "check_error P now text sig pk options TimingCheck =
     (case parseMessage text of
        Inl _ \<Rightarrow> None
      | Inr m \<Rightarrow> timing_error (validateTiming (Date_parse P) now m))"
  "check_error P now text sig pk options LengthCheck =
     (case decodeSignature P sig of
        None \<Rightarrow> None
      | Some b \<Rightarrow> Some (js ''Invalid signature length: '' @ toString (length b) @ js '' (expected 64)''))"
proof -
  show "check_error P now text sig pk options DomainCheck =
     (case parseMessage text of
        Inl _ \<Rightarrow> None
      | Inr m \<Rightarrow>
          if truthy (options_domain options)
          then Some (js ''Domain mismatch: expected '' @ the (options_domain options)
                     @ js '', got '' @ domain m)
          else None)"
    by (cases "parseMessage text") (simp_all add: case_requested_domain)
  show "check_error P now text sig pk options TimingCheck =
     (case parseMessage text of
        Inl _ \<Rightarrow> None
      | Inr m \<Rightarrow> timing_error (validateTiming (Date_parse P) now m))"
    by (cases "parseMessage text") (simp_all add: validateTiming_failure)
  show "check_error P now text sig pk options LengthCheck =
     (case decodeSignature P sig of
        None \<Rightarrow> None
      | Some b \<Rightarrow> Some (js ''Invalid signature length: '' @ toString (length b) @ js '' (expected 64)''))"
    by (simp add: signature_bytes_code)
qed

declare passes.simps(2,4,5,6,7,8,9) [simp del]

declare check_error.simps(4,6,8) [simp del]

lemma find_checks:
  "find Q check_order =
     (if Q ParseCheck then Some ParseCheck
      else if Q PublicKeyCheck then Some PublicKeyCheck
      else if Q AddressCheck then Some AddressCheck
      else if Q DomainCheck then Some DomainCheck
      else if Q NonceCheck then Some NonceCheck
      else if Q TimingCheck then Some TimingCheck
      else if Q DecodeCheck then Some DecodeCheck
      else if Q LengthCheck then Some LengthCheck
      else if Q Ed25519Check then Some Ed25519Check
      else None)"
  by (simp add: check_order_def)

lemmas verify_defs = verify_def verify_body_def spec_verify_def find_checks failure_def

lemma verify_eq_spec_verify:
  "verify P now text sig pk options = Return (spec_verify P now text sig pk options)"
proof (cases "parseMessage text")
  case (Inl e)
  then show ?thesis
    by (simp add: verify_defs cong: conj_cong)
next
  case (Inr m)
  note m = this
  consider (a) "\<not> isValidSolanaAddress P pk"
    | (b) "isValidSolanaAddress P pk" "address m \<noteq> pk"
    | (c) "isValidSolanaAddress P pk" "address m = pk"
    by blast
  then show ?thesis
  proof cases
    case a
    with m show ?thesis by (simp add: verify_defs cong: conj_cong)
  next
    case b
    with m show ?thesis by (simp add: verify_defs cong: conj_cong)
  next
    case c
    note pk = this
    consider (d) "truthy (options_domain options)" "domain m \<noteq> the (options_domain options)"
      | (n) "truthy (options_domain options) \<longrightarrow> domain m = the (options_domain options)"
            "truthy (options_nonce options)" "nonce m \<noteq> the (options_nonce options)"
      | (t) "truthy (options_domain options) \<longrightarrow> domain m = the (options_domain options)"
            "truthy (options_nonce options) \<longrightarrow> nonce m = the (options_nonce options)"
            "\<not> options_skipTimeCheck options" "\<not> valid (validateTiming (Date_parse P) now m)"
      | (s) "truthy (options_domain options) \<longrightarrow> domain m = the (options_domain options)"
            "truthy (options_nonce options) \<longrightarrow> nonce m = the (options_nonce options)"
            "\<not> options_skipTimeCheck options \<longrightarrow> valid (validateTiming (Date_parse P) now m)"
      by blast
    then show ?thesis
    proof cases
      case d
      with m pk show ?thesis by (simp add: verify_defs cong: conj_cong)
    next
      case n
      with m pk show ?thesis by (simp add: verify_defs cong: conj_cong)
    next
      case t
      with m pk show ?thesis by (simp add: verify_defs cong: conj_cong)
    next
      case s
      note pre = this
      show ?thesis
      proof (cases "decodeSignature P sig")
        case None
        with m pk pre show ?thesis by (simp add: verify_defs cong: conj_cong)
      next
        case (Some b)
        note b = this
        show ?thesis
        proof (cases "length b = 64")
          case False
          with m pk pre b show ?thesis by (simp add: verify_defs cong: conj_cong)
        next
          case True
          with m pk pre b show ?thesis
            by (cases "bs58_decode P pk") (simp_all add: verify_defs cong: conj_cong)
        qed
      qed
    qed
  qed
qed

text \<open>
  C5. \<^verbatim>\<open>verify\<close> always returns a result and never throws. The result is decided by
  the first check that fails, in the fixed order: message parse, validity of the public
  key, equality of the message address and the public key, the optional domain, the
  optional nonce, timing (unless \<^verbatim>\<open>skipTimeCheck\<close>), decoding of the signature, its
  length, Ed25519 verification. When no check fails the result is a success that carries
  the parsed message. The checks are those of \<open>passes\<close>, which reads the options record
  and the primitives of the platform and none of the functions of verify.js: a success
  means that the Ed25519 primitive has accepted the signature, and that a nonce that was
  asked for is the nonce of the message.
\<close>

theorem verify_total_and_ordered:
  "verify P now text sig pk options = Return (spec_verify P now text sig pk options)"
  by (rule verify_eq_spec_verify)

lemma timing_error_cases:
  "timing_error (validateTiming date now m) = Some e \<Longrightarrow>
     e = js ''Message has expired'' \<or> e = js ''Message not yet valid''
     \<or> e = js ''Message issued in the future''"
  by (auto simp add: validateTiming_def split: if_splits)

lemma first_failure:
  "find Q check_order = Some c \<Longrightarrow> Q c \<and> (c \<noteq> ParseCheck \<longrightarrow> \<not> Q ParseCheck)"
  by (auto simp add: find_checks split: if_splits)

lemma spec_verify_error:
  assumes "error (spec_verify P now text sig pk options) = Some e"
  shows "\<exists>c. \<not> passes P now text sig pk options c
             \<and> (c \<noteq> ParseCheck \<longrightarrow> passes P now text sig pk options ParseCheck)
             \<and> check_error P now text sig pk options c = Some e"
proof (cases "find (\<lambda>c. \<not> passes P now text sig pk options c) check_order")
  case None
  with assms show ?thesis by (simp add: spec_verify_def)
next
  case (Some c)
  from first_failure [OF Some] have "\<not> passes P now text sig pk options c"
    and "c \<noteq> ParseCheck \<longrightarrow> passes P now text sig pk options ParseCheck" by simp_all
  with assms Some show ?thesis by (auto simp add: spec_verify_def)
qed

lemma check_error_head:
  assumes "check_error P now text sig pk options c = Some e"
  shows "e \<noteq> [] \<and> (hd e = 68 \<longrightarrow> c = DomainCheck) \<and> (hd e = 78 \<longrightarrow> c = NonceCheck)"
proof (cases c)
  case TimingCheck
  with assms obtain m where "timing_error (validateTiming (Date_parse P) now m) = Some e"
    by (auto split: sum.splits)
  from timing_error_cases [OF this] show ?thesis by (auto simp add: js_def)
next
  case DomainCheck
  with assms show ?thesis
    by (cases "parseMessage text"; cases "truthy (options_domain options)") (auto simp add: js_def)
next
  case Ed25519Check
  with assms show ?thesis by (auto simp add: js_def split: sum.splits)
qed (use assms in \<open>auto simp add: js_def split: sum.splits option.splits\<close>)

lemma startsWith_head:
  "startsWith e (x # p) \<Longrightarrow> e \<noteq> [] \<and> hd e = x"
  by (cases e) (auto simp add: startsWith_def)

text \<open>
  C10. The empty string as \<^verbatim>\<open>options.domain\<close> switches the domain check off:
  \<^verbatim>\<open>verify\<close> returns what it returns without a domain option, and never a
  "Domain mismatch" error. The same holds for \<^verbatim>\<open>options.nonce\<close> and "Nonce mismatch".
\<close>

theorem empty_option_disables_check:
  "verify P now text sig pk (Some (opts\<lparr>opt_domain := Some []\<rparr>))
     = verify P now text sig pk (Some (opts\<lparr>opt_domain := None\<rparr>))
   \<and> verify P now text sig pk (Some \<lparr>opt_domain = Some [], opt_nonce = None, skipTimeCheck = None\<rparr>)
     = verify P now text sig pk None
   \<and> (\<forall>r e. verify P now text sig pk (Some (opts\<lparr>opt_domain := Some []\<rparr>)) = Return r
              \<and> error r = Some e \<longrightarrow> \<not> startsWith e (js ''Domain mismatch''))
   \<and> verify P now text sig pk (Some (opts\<lparr>opt_nonce := Some []\<rparr>))
     = verify P now text sig pk (Some (opts\<lparr>opt_nonce := None\<rparr>))
   \<and> verify P now text sig pk (Some \<lparr>opt_domain = None, opt_nonce = Some [], skipTimeCheck = None\<rparr>)
     = verify P now text sig pk None
   \<and> (\<forall>r e. verify P now text sig pk (Some (opts\<lparr>opt_nonce := Some []\<rparr>)) = Return r
              \<and> error r = Some e \<longrightarrow> \<not> startsWith e (js ''Nonce mismatch''))"
proof -
  have d1: "verify P now text sig pk (Some (opts\<lparr>opt_domain := Some []\<rparr>))
     = verify P now text sig pk (Some (opts\<lparr>opt_domain := None\<rparr>))"
    by (cases "parseMessage text")
       (simp_all add: verify_def verify_body_def options_domain_def options_nonce_def
          options_skipTimeCheck_def)
  have d2: "verify P now text sig pk (Some \<lparr>opt_domain = Some [], opt_nonce = None, skipTimeCheck = None\<rparr>)
     = verify P now text sig pk None"
    by (cases "parseMessage text")
       (simp_all add: verify_def verify_body_def options_domain_def options_nonce_def
          options_skipTimeCheck_def)
  have n1: "verify P now text sig pk (Some (opts\<lparr>opt_nonce := Some []\<rparr>))
     = verify P now text sig pk (Some (opts\<lparr>opt_nonce := None\<rparr>))"
    by (cases "parseMessage text")
       (simp_all add: verify_def verify_body_def options_domain_def options_nonce_def
          options_skipTimeCheck_def)
  have n2: "verify P now text sig pk (Some \<lparr>opt_domain = None, opt_nonce = Some [], skipTimeCheck = None\<rparr>)
     = verify P now text sig pk None"
    by (cases "parseMessage text")
       (simp_all add: verify_def verify_body_def options_domain_def options_nonce_def
          options_skipTimeCheck_def)
  have d3: "\<not> startsWith e (js ''Domain mismatch'')"
    if "verify P now text sig pk (Some (opts\<lparr>opt_domain := Some []\<rparr>)) = Return r"
      and "error r = Some e" for r e
  proof
    assume sw: "startsWith e (js ''Domain mismatch'')"
    let ?o = "Some (opts\<lparr>opt_domain := Some []\<rparr>)"
    from that have "error (spec_verify P now text sig pk ?o) = Some e"
      by (simp add: verify_eq_spec_verify)
    from spec_verify_error [OF this] obtain c where
      c: "\<not> passes P now text sig pk ?o c"
         "c \<noteq> ParseCheck \<longrightarrow> passes P now text sig pk ?o ParseCheck"
         "check_error P now text sig pk ?o c = Some e"
      by blast
    from sw have "hd e = 68" using startsWith_head [of e 68] by (simp add: js_def)
    with check_error_head [OF c(3)] have "c = DomainCheck" by simp
    with c show False by (simp add: options_domain_def split: sum.splits)
  qed
  have n3: "\<not> startsWith e (js ''Nonce mismatch'')"
    if "verify P now text sig pk (Some (opts\<lparr>opt_nonce := Some []\<rparr>)) = Return r"
      and "error r = Some e" for r e
  proof
    assume sw: "startsWith e (js ''Nonce mismatch'')"
    let ?o = "Some (opts\<lparr>opt_nonce := Some []\<rparr>)"
    from that have "error (spec_verify P now text sig pk ?o) = Some e"
      by (simp add: verify_eq_spec_verify)
    from spec_verify_error [OF this] obtain c where
      c: "\<not> passes P now text sig pk ?o c"
         "c \<noteq> ParseCheck \<longrightarrow> passes P now text sig pk ?o ParseCheck"
         "check_error P now text sig pk ?o c = Some e"
      by blast
    from sw have "hd e = 78" using startsWith_head [of e 78] by (simp add: js_def)
    with check_error_head [OF c(3)] have "c = NonceCheck" by simp
    with c show False by (simp add: options_nonce_def split: sum.splits)
  qed
  from d1 d2 d3 n1 n2 n3 show ?thesis by blast
qed

lemma check_error_encoding:
  assumes "check_error P now text sig pk options c = Some encoding_error"
  shows "c = DecodeCheck"
proof (cases c)
  case TimingCheck
  with assms obtain m where "timing_error (validateTiming (Date_parse P) now m) = Some encoding_error"
    by (auto split: sum.splits)
  from timing_error_cases [OF this] show ?thesis by (auto simp add: js_def encoding_error_def)
next
  case DomainCheck
  with assms show ?thesis
    by (cases "parseMessage text"; cases "truthy (options_domain options)")
      (auto simp add: js_def encoding_error_def)
qed (use assms in \<open>auto simp add: js_def encoding_error_def split: sum.splits option.splits\<close>)

lemma verify_after_checks:
  assumes "reaches_signature_decoding P now text sig pk options"
  shows "verify P now text sig pk options =
     Return (case decodeSignature P sig of
        None \<Rightarrow> failure encoding_error
      | Some b \<Rightarrow>
          if length b \<noteq> 64 then failure (length_error (length b))
          else \<lparr> success = passes P now text sig pk options Ed25519Check,
                 message = (if passes P now text sig pk options Ed25519Check
                            then (case parseMessage text of Inl _ \<Rightarrow> None | Inr m \<Rightarrow> Some m) else None),
                 error = (if passes P now text sig pk options Ed25519Check then None
                          else check_error P now text sig pk options Ed25519Check) \<rparr>)"
  using assms
  by (simp add: verify_eq_spec_verify spec_verify_def find_checks reaches_signature_decoding_def
      failure_def encoding_error_def length_error_def split: option.splits sum.splits)

text \<open>
  C6. The signature is decoded as base58 first and as base64 when that fails.
  \<^verbatim>\<open>verify\<close> returns "Invalid signature encoding (expected base58 or base64)" only if
  both decoders fail, and, once the checks before the decoding have passed, whenever both
  fail. When the decoding gives a number of bytes other than 64, the result is
  "Invalid signature length: N (expected 64)" with N that number.
\<close>

theorem signature_decoding_fallback:
  "(verify P now text sig pk options = Return (failure encoding_error)
      \<longrightarrow> (\<exists>e. bs58_decode P sig = Inl e) \<and> Buffer_from_base64 P sig = None)
   \<and> (reaches_signature_decoding P now text sig pk options \<longrightarrow>
        ((\<exists>e. bs58_decode P sig = Inl e) \<and> Buffer_from_base64 P sig = None
           \<longrightarrow> verify P now text sig pk options = Return (failure encoding_error))
      \<and> (\<forall>b. bs58_decode P sig = Inr b \<and> length b \<noteq> 64
           \<longrightarrow> verify P now text sig pk options = Return (failure (length_error (length b))))
      \<and> (\<forall>e b. bs58_decode P sig = Inl e \<and> Buffer_from_base64 P sig = Some b \<and> length b \<noteq> 64
           \<longrightarrow> verify P now text sig pk options = Return (failure (length_error (length b)))))"
proof -
  have only_if: "(\<exists>e. bs58_decode P sig = Inl e) \<and> Buffer_from_base64 P sig = None"
    if "verify P now text sig pk options = Return (failure encoding_error)"
  proof -
    from that have "error (spec_verify P now text sig pk options) = Some encoding_error"
      by (simp add: verify_eq_spec_verify failure_def)
    from spec_verify_error [OF this] obtain c where
      c: "\<not> passes P now text sig pk options c"
         "check_error P now text sig pk options c = Some encoding_error"
      by blast
    from check_error_encoding [OF c(2)] have "c = DecodeCheck" .
    with c(1) show ?thesis
      by (auto simp add: decodeSignature_def split: sum.splits option.splits)
  qed
  have after: "reaches_signature_decoding P now text sig pk options \<Longrightarrow>
        ((\<exists>e. bs58_decode P sig = Inl e) \<and> Buffer_from_base64 P sig = None
           \<longrightarrow> verify P now text sig pk options = Return (failure encoding_error))
      \<and> (\<forall>b. bs58_decode P sig = Inr b \<and> length b \<noteq> 64
           \<longrightarrow> verify P now text sig pk options = Return (failure (length_error (length b))))
      \<and> (\<forall>e b. bs58_decode P sig = Inl e \<and> Buffer_from_base64 P sig = Some b \<and> length b \<noteq> 64
           \<longrightarrow> verify P now text sig pk options = Return (failure (length_error (length b))))"
    by (auto simp add: verify_after_checks decodeSignature_def)
  from only_if after show ?thesis by blast
qed

section \<open>The properties of verify on the example\<close>

lemma parse_example: "parseMessage example_text = Inr example_message"
  unfolding example_text_def by (rule parse_serialize [OF canonical_example])

lemma example_address_valid: "isValidSolanaAddress example_platform (address example_message)"
  by (simp add: isValidSolanaAddress_def example_platform_def)

lemma example_timing:
  "validateTiming (Date_parse example_platform) example_now example_message
     = \<lparr> valid = True, timing_error = None \<rparr>"
proof -
  have "example_Date_parse (js ''2026-02-01T12:05:00.000Z'') = Some 1769947500000"
    by (simp add: example_Date_parse_def js_def)
  moreover have "example_Date_parse (js ''2026-02-01T12:00:00.000Z'') = Some 1769947200000"
    by (simp add: example_Date_parse_def)
  ultimately show ?thesis
    by (simp add: validateTiming_def example_platform_def example_message_def example_now_def
        maxSkew_def)
qed

lemma example_decoders:
  "bs58_decode example_platform (address example_message) = Inr example_key"
  "bs58_decode example_platform (js ''sig58'') = Inr example_signature"
  "bs58_decode example_platform (js ''short58'') = Inr [1, 2, 3]"
  "bs58_decode example_platform (js ''forged58'') = Inr forged_signature"
  "bs58_decode example_platform (js ''c2ln'') = Inl (js ''Non-base58 character'')"
  "bs58_decode example_platform (js ''?'') = Inl (js ''Non-base58 character'')"
  "Buffer_from_base64 example_platform (js ''c2ln'') = Some [115, 105, 103]"
  "Buffer_from_base64 example_platform (js ''?'') = None"
  by (simp_all add: example_platform_def example_message_def js_def)

lemma example_reaches:
  "reaches_signature_decoding example_platform example_now example_text sig
     (address example_message) None"
  by (simp add: reaches_signature_decoding_def parse_example example_address_valid
      options_domain_def options_nonce_def options_skipTimeCheck_def example_timing)

lemma example_ed25519:
  "verifyEd25519Signature example_platform (TextEncoder_encode example_platform example_text)
     example_signature example_key"
  by (simp add: verifyEd25519Signature_def example_platform_def example_text_def
      example_signature_def example_key_def)

lemma example_forged:
  "\<not> verifyEd25519Signature example_platform (TextEncoder_encode example_platform example_text)
       forged_signature example_key"
  by (simp add: verifyEd25519Signature_def example_platform_def forged_signature_def
      example_signature_def example_key_def)

theorem verify_total_and_ordered_witness:
  "verify example_platform example_now example_text (js ''sig58'') (address example_message) None
     = Return \<lparr> success = True, message = Some example_message, error = None \<rparr>
   \<and> verify example_platform example_now example_text (js ''sig58'') (address example_message)
       (Some \<lparr> opt_domain = Some (js ''evil.com''), opt_nonce = None, skipTimeCheck = None \<rparr>)
     = Return (failure (js ''Domain mismatch: expected evil.com, got example.com''))
   \<and> verify example_platform example_now example_text (js ''sig58'') (address example_message)
       (Some \<lparr> opt_domain = None, opt_nonce = Some (js ''B9B9''), skipTimeCheck = None \<rparr>)
     = Return (failure (js ''Nonce mismatch''))
   \<and> verify example_platform example_now example_text (js ''forged58'') (address example_message)
       None
     = Return (failure (js ''Signature verification failed''))"
proof -
  have len: "length example_signature = 64" "length forged_signature = 64"
    by (simp_all add: example_signature_def forged_signature_def)
  have dom: "domain example_message = js ''example.com''"
    "js ''example.com'' \<noteq> js ''evil.com''" "js ''evil.com'' \<noteq> []"
    by (simp_all add: example_message_def js_def)
  have non: "nonce example_message \<noteq> js ''B9B9''" "js ''B9B9'' \<noteq> []"
    by (simp_all add: example_message_def js_def)
  have str: "js ''Domain mismatch: expected '' @ js ''evil.com'' @ js '', got '' @ js ''example.com''
      = js ''Domain mismatch: expected evil.com, got example.com''"
    by (simp add: js_def)
  have ok: "verify example_platform example_now example_text (js ''sig58'') (address example_message) None
     = Return \<lparr> success = True, message = Some example_message, error = None \<rparr>"
    using verify_total_and_ordered [of example_platform example_now example_text "js ''sig58''"
        "address example_message" None]
    by (simp add: spec_verify_def find_checks parse_example example_address_valid example_timing
        example_decoders decodeSignature_def len example_ed25519 options_domain_def
        options_nonce_def options_skipTimeCheck_def)
  have domain: "verify example_platform example_now example_text (js ''sig58'') (address example_message)
       (Some \<lparr> opt_domain = Some (js ''evil.com''), opt_nonce = None, skipTimeCheck = None \<rparr>)
     = Return (failure (js ''Domain mismatch: expected evil.com, got example.com''))"
    using verify_total_and_ordered [of example_platform example_now example_text "js ''sig58''"
        "address example_message"
        "Some \<lparr> opt_domain = Some (js ''evil.com''), opt_nonce = None, skipTimeCheck = None \<rparr>"]
    by (simp add: spec_verify_def find_checks parse_example example_address_valid
        options_domain_def dom str failure_def)
  have nonce: "verify example_platform example_now example_text (js ''sig58'') (address example_message)
       (Some \<lparr> opt_domain = None, opt_nonce = Some (js ''B9B9''), skipTimeCheck = None \<rparr>)
     = Return (failure (js ''Nonce mismatch''))"
    using verify_total_and_ordered [of example_platform example_now example_text "js ''sig58''"
        "address example_message"
        "Some \<lparr> opt_domain = None, opt_nonce = Some (js ''B9B9''), skipTimeCheck = None \<rparr>"]
    by (simp add: spec_verify_def find_checks parse_example example_address_valid
        options_domain_def options_nonce_def non failure_def)
  have forged: "verify example_platform example_now example_text (js ''forged58'')
       (address example_message) None
     = Return (failure (js ''Signature verification failed''))"
    using verify_total_and_ordered [of example_platform example_now example_text "js ''forged58''"
        "address example_message" None]
    by (simp add: spec_verify_def find_checks parse_example example_address_valid example_timing
        example_decoders decodeSignature_def len example_forged options_domain_def
        options_nonce_def options_skipTimeCheck_def failure_def)
  from ok domain nonce forged show ?thesis by (simp only: simp_thms)
qed

theorem signature_decoding_fallback_witness:
  "reaches_signature_decoding example_platform example_now example_text (js ''?'')
     (address example_message) None
   \<and> verify example_platform example_now example_text (js ''?'') (address example_message) None
     = Return (failure (js ''Invalid signature encoding (expected base58 or base64)''))
   \<and> verify example_platform example_now example_text (js ''short58'') (address example_message) None
     = Return (failure (js ''Invalid signature length: 3 (expected 64)''))
   \<and> verify example_platform example_now example_text (js ''c2ln'') (address example_message) None
     = Return (failure (js ''Invalid signature length: 3 (expected 64)''))"
proof -
  have str: "length_error (Suc (Suc (Suc 0))) = js ''Invalid signature length: 3 (expected 64)''"
    by (simp add: length_error_def js_def)
  show ?thesis
    using signature_decoding_fallback [of example_platform example_now example_text "js ''?''"
        "address example_message" None]
      signature_decoding_fallback [of example_platform example_now example_text "js ''short58''"
        "address example_message" None]
      signature_decoding_fallback [of example_platform example_now example_text "js ''c2ln''"
        "address example_message" None]
    by (simp add: example_reaches example_decoders encoding_error_def str)
qed

theorem empty_option_disables_check_witness:
  "verify example_platform example_now example_text (js ''sig58'') (address example_message)
       (Some \<lparr> opt_domain = Some [], opt_nonce = None, skipTimeCheck = None \<rparr>)
     = Return \<lparr> success = True, message = Some example_message, error = None \<rparr>
   \<and> verify example_platform example_now example_text (js ''?'') (address example_message)
       (Some \<lparr> opt_domain = Some [], opt_nonce = None, skipTimeCheck = None \<rparr>)
     = Return (failure (js ''Invalid signature encoding (expected base58 or base64)''))
   \<and> \<not> startsWith (js ''Invalid signature encoding (expected base58 or base64)'')
         (js ''Domain mismatch'')"
proof -
  let ?o = "\<lparr> opt_domain = None, opt_nonce = None, skipTimeCheck = None \<rparr>"
  let ?e = "\<lparr> opt_domain = Some [], opt_nonce = None, skipTimeCheck = None \<rparr>"
  let ?err = "js ''Invalid signature encoding (expected base58 or base64)''"
  note good = empty_option_disables_check [of example_platform example_now example_text
      "js ''sig58''" "address example_message" ?o]
  note bad = empty_option_disables_check [of example_platform example_now example_text
      "js ''?''" "address example_message" ?o]
  have ok: "verify example_platform example_now example_text (js ''sig58'') (address example_message) None
     = Return \<lparr> success = True, message = Some example_message, error = None \<rparr>"
    by (simp add: verify_eq_spec_verify spec_verify_def find_checks parse_example
        example_address_valid example_timing example_decoders decodeSignature_def
        example_signature_def example_ed25519 [unfolded example_signature_def]
        options_domain_def options_nonce_def options_skipTimeCheck_def)
  have enc: "verify example_platform example_now example_text (js ''?'') (address example_message) None
     = Return (failure ?err)"
    by (simp add: verify_after_checks [OF example_reaches] decodeSignature_def example_decoders
        encoding_error_def)
  have a: "verify example_platform example_now example_text (js ''sig58'') (address example_message)
       (Some ?e) = Return \<lparr> success = True, message = Some example_message, error = None \<rparr>"
    using good [THEN conjunct2, THEN conjunct1] ok by simp
  have b: "verify example_platform example_now example_text (js ''?'') (address example_message)
       (Some ?e) = Return (failure ?err)"
    using bad [THEN conjunct2, THEN conjunct1] enc by simp
  have "\<forall>r e. verify example_platform example_now example_text (js ''?'') (address example_message)
           (Some ?e) = Return r \<and> error r = Some e \<longrightarrow> \<not> startsWith e (js ''Domain mismatch'')"
    using bad [THEN conjunct2, THEN conjunct2, THEN conjunct1] by simp
  then have c: "\<not> startsWith ?err (js ''Domain mismatch'')"
    using b by (simp add: failure_def)
  from a b c show ?thesis by simp
qed

section \<open>Properties of generateNonce\<close>

lemma length_nonce_chars: "length nonce_chars = 62"
  by (simp add: nonce_chars_def js_def)

lemma maxValid_248: "maxValid = 248"
  by (simp add: maxValid_def length_nonce_chars)

lemma fill_accepts:
  "length result + length (filter (\<lambda>byte. byte < 248) array) \<le> len \<Longrightarrow>
     fill len array result = result @ map nonce_char (filter (\<lambda>byte. byte < 248) array)"
proof (induction array arbitrary: result)
  case Nil
  then show ?case by simp
next
  case (Cons byte array)
  show ?case
  proof (cases "byte < 248")
    case True
    with Cons.prems have "length result < len" by simp
    moreover from True Cons.prems
    have "length (result @ [nonce_char byte]) + length (filter (\<lambda>byte. byte < 248) array) \<le> len"
      by simp
    ultimately show ?thesis
      using True Cons.IH [of "result @ [nonce_char byte]"]
      by (simp add: maxValid_248 length_nonce_chars nonce_char_def)
  next
    case False
    with Cons.prems Cons.IH [of result] show ?thesis
      by (simp add: maxValid_248)
  qed
qed

lemma accepted_split:
  "i \<le> j \<Longrightarrow> j \<le> k \<Longrightarrow> accepted random i k = accepted random i j @ accepted random j k"
proof -
  assume "i \<le> j" "j \<le> k"
  then have "[i..<k] = [i..<j] @ [j..<k]"
    by (metis le_Suc_ex upt_add_eq_append)
  then show ?thesis by (simp add: accepted_def)
qed

lemma accepted_length: "length (accepted random i j) \<le> j - i"
  using length_filter_le [of "\<lambda>byte. byte < 248" "map random [i..<j]"] by (simp add: accepted_def)

lemma loop_returns:
  assumes "len - length result \<le> quota" "pos \<le> N"
    and "len \<le> length result + length (accepted random pos N)"
  shows "generateNonce_loop random len pos result
           = Some (Return (result @ map nonce_char (take (len - length result) (accepted random pos N))))"
  using assms
proof (induction "N - pos" arbitrary: pos result rule: less_induct)
  case less
  show ?case
  proof (cases "length result < len")
    case False
    then show ?thesis by (subst generateNonce_loop.simps) simp
  next
    case True
    define n where "n = len - length result"
    with True have n: "0 < n" "n \<le> quota" using less.prems(1) by simp_all
    have "n \<le> length (accepted random pos N)" using less.prems(3) by (simp add: n_def)
    with accepted_length [of random pos N] less.prems(2) n(1) have posn: "pos + n \<le> N" by linarith
    let ?a = "accepted random pos (pos + n)"
    have an: "length ?a \<le> n" using accepted_length [of random pos "pos + n"] by simp
    have sp: "accepted random pos N = ?a @ accepted random (pos + n) N"
      by (rule accepted_split) (use posn in simp_all)
    have fl: "fill len (map random [pos..<pos + n]) result = result @ map nonce_char ?a"
      unfolding accepted_def
      by (rule fill_accepts) (use an True in \<open>simp add: accepted_def n_def\<close>)
    let ?r = "result @ map nonce_char ?a"
    have rem: "len - length ?r = n - length ?a" by (simp add: n_def)
    have ih: "generateNonce_loop random len (pos + n) ?r
           = Some (Return (?r @ map nonce_char (take (len - length ?r) (accepted random (pos + n) N))))"
    proof (rule less.hyps)
      show "N - (pos + n) < N - pos" using n posn by simp
      show "len - length ?r \<le> quota" using n rem by simp
      show "pos + n \<le> N" by (rule posn)
      show "len \<le> length ?r + length (accepted random (pos + n) N)"
        using less.prems(3) by (simp add: sp)
    qed
    have tk: "take n (accepted random pos N) = ?a @ take (n - length ?a) (accepted random (pos + n) N)"
      using an by (simp add: sp)
    have "generateNonce_loop random len pos result = generateNonce_loop random len (pos + n) ?r"
      by (subst generateNonce_loop.simps) (use True n in \<open>simp add: n_def [symmetric] fl\<close>)
    also have "\<dots> = Some (Return (?r @ map nonce_char (take (n - length ?a) (accepted random (pos + n) N))))"
      using ih unfolding rem .
    finally show ?thesis by (simp add: tk n_def [symmetric])
  qed
qed

lemma loop_rejects_forever:
  assumes "generateNonce_loop random len pos result = Some y"
  shows "\<not> (random = rejecting_source \<and> len = 1 \<and> result = [])"
proof (rule generateNonce_loop.raw_induct
    [where P = "\<lambda>random len pos result y. \<not> (random = rejecting_source \<and> len = 1 \<and> result = [])",
      OF _ assms])
  fix f :: "(nat \<Rightarrow> nat) \<Rightarrow> nat \<Rightarrow> nat \<Rightarrow> jsstring \<Rightarrow> jsstring outcome option"
  fix random len pos result y
  assume ih: "\<And>random len pos result y. f random len pos result = Some y \<Longrightarrow>
      \<not> (random = rejecting_source \<and> len = 1 \<and> result = [])"
  assume step: "(if length result < len then
        (if len - length result > quota then Some (Throw (js ''QuotaExceededError''))
         else f random len (pos + (len - length result))
                (fill len (map random [pos..<pos + (len - length result)]) result))
      else Some (Return result)) = Some y"
  show "\<not> (random = rejecting_source \<and> len = 1 \<and> result = [])"
  proof
    assume a: "random = rejecting_source \<and> len = 1 \<and> result = []"
    with step have "f rejecting_source 1 (pos + 1) [] = Some y"
      by (simp add: quota_def maxValid_248 rejecting_source_def)
    from ih [OF this] show False by simp
  qed
qed

lemma never_returns: "generateNonce rejecting_source (Some 1) = None"
proof (cases "generateNonce rejecting_source (Some 1)")
  case None
  then show ?thesis .
next
  case (Some y)
  then show ?thesis
    using loop_rejects_forever [of rejecting_source 1 0 "[]" y] by (simp add: generateNonce_def)
qed

lemma over_quota: "generateNonce random (Some 65537) = Some (Throw (js ''QuotaExceededError''))"
  unfolding generateNonce_def
  by (subst generateNonce_loop.simps) (simp add: quota_def)

lemma nonce_char_in_alphabet: "nonce_char byte \<in> set nonce_chars"
  by (simp add: nonce_char_def length_nonce_chars)

text \<open>
  Within the quota the function does the rejection sampling of the specification. For a
  requested length \<open>n\<close> of at most 65536 and a random source that
  delivers at least \<open>n\<close> bytes below 248 (here: among its first \<open>N\<close> bytes),
  \<^verbatim>\<open>generateNonce(n)\<close> returns a string of exactly \<open>n\<close> characters of the 62-symbol
  alphabet: the characters at the positions \<open>byte mod 62\<close> of the first \<open>n\<close> bytes below
  248 that were drawn, in the order drawn. The bound is \<open>256 - (256 mod 62) = 248\<close>.
\<close>

theorem generateNonce_rejection_sampling:
  assumes "n \<le> 65536" and "n \<le> length (accepted random 0 N)"
  shows "generateNonce random (Some n) = Some (Return (map nonce_char (take n (accepted random 0 N))))
       \<and> length (map nonce_char (take n (accepted random 0 N))) = n
       \<and> set (map nonce_char (take n (accepted random 0 N))) \<subseteq> set nonce_chars
       \<and> maxValid = 248 \<and> length nonce_chars = 62"
proof -
  have "generateNonce random (Some n)
          = Some (Return ([] @ map nonce_char (take (n - length ([]::jsstring)) (accepted random 0 N))))"
    unfolding generateNonce_def option.case
    by (rule loop_returns) (use assms in \<open>simp_all add: quota_def\<close>)
  moreover have "set (map nonce_char (take n (accepted random 0 N))) \<subseteq> set nonce_chars"
    using nonce_char_in_alphabet by auto
  ultimately show ?thesis
    using assms(2) by (simp add: maxValid_248 length_nonce_chars)
qed

theorem generateNonce_rejection_sampling_witness:
  "(4::nat) \<le> 65536 \<and> 4 \<le> length (accepted example_source 0 8)
   \<and> generateNonce example_source (Some 4) = Some (Return (js ''A9A9''))"
proof -
  have acc: "accepted example_source 0 8 = [0, 61, 62, 247, 1]"
    by code_simp
  have chars: "[nonce_char 0, nonce_char 61, nonce_char 62, nonce_char 247] = js ''A9A9''"
    by code_simp
  show ?thesis
    using generateNonce_rejection_sampling [of 4 example_source 8]
    by (simp add: acc chars)
qed

lemma accepted_zero_source: "accepted zero_source 0 N = replicate N 0"
proof -
  have "map zero_source [0..<N] = replicate N 0"
    by (induction N) (simp_all add: zero_source_def replicate_append_same)
  then show ?thesis by (simp add: accepted_def)
qed

text \<open>
  C8. \<^verbatim>\<open>generateNonce(65537)\<close> throws instead of returning 65537 characters. The loop
  is written for any length and nothing in the function bounds it, but its first pass asks
  \<^verbatim>\<open>crypto.getRandomValues\<close> for as many bytes as characters are missing, and a
  request for more than 65536 bytes is refused with a QuotaExceededError. The random source
  here delivers only zeros, each of which is accepted and stands for the character A: the
  source has the 65537 accepted bytes the result needs, and the length 65536 is still
  served.
\<close>

theorem generateNonce_over_quota:
  "generateNonce zero_source (Some 65537) = Some (Throw (js ''QuotaExceededError''))
   \<and> length (accepted zero_source 0 65537) = 65537
   \<and> generateNonce zero_source (Some 65536) = Some (Return (js (replicate 65536 CHR ''A'')))"
proof -
  have char: "nonce_char 0 = of_char CHR ''A''"
    by (simp add: nonce_char_def nonce_chars_def js_def)
  have "generateNonce zero_source (Some 65536)
          = Some (Return (map nonce_char (take 65536 (accepted zero_source 0 65536))))"
    using generateNonce_rejection_sampling [of 65536 zero_source 65536]
    by (simp add: accepted_zero_source)
  then have "generateNonce zero_source (Some 65536) = Some (Return (js (replicate 65536 CHR ''A'')))"
    by (simp add: accepted_zero_source char js_def)
  then show ?thesis
    using over_quota [of zero_source] by (simp add: accepted_zero_source)
qed

section \<open>Replay protection\<close>

lemma spec_verify_success:
  assumes "success (spec_verify P now text sig pk options)"
  shows "\<exists>m. parseMessage text = Inr m \<and> message (spec_verify P now text sig pk options) = Some m"
proof (cases "find (\<lambda>c. \<not> passes P now text sig pk options c) check_order")
  case None
  then have "passes P now text sig pk options ParseCheck"
    by (simp add: find_checks split: if_splits)
  then obtain m where "parseMessage text = Inr m" by (auto split: sum.splits)
  with None show ?thesis by (simp add: spec_verify_def)
next
  case (Some c)
  with assms show ?thesis by (simp add: spec_verify_def)
qed

lemma verifySignature_unfold:
  "verifySignature P cfg tokenBytes now s msg pubkey signature =
     (let result = spec_verify P now msg signature pubkey (server_verify_options cfg)
      in if \<not> success result then
            (Throw (case error result of None \<Rightarrow> js ''Verification failed'' | Some e \<Rightarrow> e), s)
          else
            (case InMemoryNonceStore_get (nonceStore s) (nonce_of msg) of
                    None \<Rightarrow> (Throw (js ''Invalid or expired nonce''), s)
                  | Some nonceData \<Rightarrow>
                      if nd_pubkey nonceData \<noteq> pubkey then (Throw (js ''Public key mismatch''), s)
                      else
                         (Return \<lparr> token = js ''siwa_'' @ tokenBytes, se_address = pubkey,
                                      se_expiresAt = toISOString P (now + sessionExpirationMinutes cfg * 60 * 1000),
                                      se_scopes = resources (the (message result)) \<rparr>,
                          s\<lparr>nonceStore := InMemoryNonceStore_delete (nonceStore s) (nonce_of msg),
                            sessionStore := InMemorySessionStore_set now (sessionStore s)
                               (js ''siwa_'' @ tokenBytes)
                               \<lparr> sd_address = pubkey,
                                 sd_expiresAt = now + sessionExpirationMinutes cfg * 60 * 1000,
                                 sd_scopes = resources (the (message result)),
                                 sd_message = message result \<rparr>\<rparr>)))"
proof (cases "success (spec_verify P now msg signature pubkey (server_verify_options cfg))")
  case False
  then show ?thesis
    by (simp add: verifySignature_def verify_eq_spec_verify server_verify_options_def Let_def)
next
  case True
  from spec_verify_success [OF this] obtain m where
    m: "parseMessage msg = Inr m"
       "message (spec_verify P now msg signature pubkey (server_verify_options cfg)) = Some m"
    by blast
  then have n: "nonce_of msg = nonce m" by (simp add: nonce_of_def)
  show ?thesis
    using True m(2)
    by (simp add: verifySignature_def verify_eq_spec_verify server_verify_options_def [symmetric]
        Let_def n split: option.splits)
qed

lemma verifySignature_consumes:
  assumes "verifySignature P cfg tokenBytes now s msg pubkey signature = (Return session, s1)"
  shows "entries (nonceStore s1) (nonce_of msg) = None"
  using assms
  by (auto simp add: verifySignature_unfold Let_def InMemoryNonceStore_delete_def
      split: if_splits option.splits)

lemma verifySignature_without_record:
  assumes "entries (nonceStore s) (nonce_of msg) = None"
  shows "verifySignature P cfg tokenBytes now s msg pubkey signature
           = (Throw (replay_error P cfg now msg pubkey signature), s)"
  using assms
  by (simp add: verifySignature_unfold Let_def replay_error_def InMemoryNonceStore_get_def)

lemma verifySignature_keeps_absent:
  assumes "entries (nonceStore s) n = None"
  shows "entries (nonceStore (snd (verifySignature P cfg tokenBytes now s msg pubkey signature))) n = None"
  using assms
  by (simp add: verifySignature_unfold Let_def InMemoryNonceStore_delete_def split: option.splits)

lemma createChallenge_keeps_absent:
  assumes "entries (nonceStore s) n = None"
    and "generateNonce random (Some 32) \<noteq> Some (Return n)"
    and "createChallenge P cfg random now s pubkey = Some (r, s')"
  shows "entries (nonceStore s') n = None"
  using assms
  by (auto simp add: createChallenge_def Let_def InMemoryNonceStore_set_def
      split: if_splits option.splits outcome.splits)

lemma apply_event_keeps_absent:
  assumes "entries (nonceStore s) n = None" and "issues_other_nonce n ev"
  shows "entries (nonceStore (apply_event P cfg s ev)) n = None"
proof (cases ev)
  case (CreateChallenge random now pubkey)
  with assms show ?thesis
    using createChallenge_keeps_absent [of s n random P cfg now pubkey]
    by (auto split: option.splits)
next
  case (VerifySignature tokenBytes now msg pubkey signature)
  with assms show ?thesis by (simp add: verifySignature_keeps_absent)
next
  case (ValidateSession now tok)
  with assms show ?thesis by (simp add: validateSession_def split: prod.splits)
next
  case (RevokeSession tok)
  with assms show ?thesis by (simp add: revokeSession_def)
next
  case (RunTimers now)
  with assms show ?thesis by (simp add: run_timers_def)
qed

lemma events_keep_absent:
  assumes "entries (nonceStore s) n = None" and "list_all (issues_other_nonce n) events"
  shows "entries (nonceStore (foldl (apply_event P cfg) s events)) n = None"
  using assms
  by (induction events arbitrary: s) (simp_all add: apply_event_keeps_absent)

text \<open>
  C2 (as amended). Once \<^verbatim>\<open>verifySignature\<close> has succeeded for a message, every later
  call with the same message, public key and signature fails, whatever the server did in
  between (as long as no challenge was issued with the same nonce again): the record of the
  nonce is gone. The later call fails with "Invalid or expired nonce" when the message
  still passes \<^verbatim>\<open>verify\<close>, and with the error of \<^verbatim>\<open>verify\<close> otherwise.
\<close>

theorem replay_rejected:
  assumes "verifySignature P cfg tokenBytes now s msg pubkey signature = (Return session, s1)"
    and "list_all (issues_other_nonce (nonce_of msg)) events"
  shows "verifySignature P cfg tokenBytes' now' (foldl (apply_event P cfg) s1 events) msg pubkey signature
           = (Throw (replay_error P cfg now' msg pubkey signature), foldl (apply_event P cfg) s1 events)
       \<and> (success (spec_verify P now' msg signature pubkey (server_verify_options cfg))
            \<longrightarrow> replay_error P cfg now' msg pubkey signature = js ''Invalid or expired nonce'')"
proof -
  from verifySignature_consumes [OF assms(1)]
  have "entries (nonceStore s1) (nonce_of msg) = None" .
  from events_keep_absent [OF this assms(2)]
  have "entries (nonceStore (foldl (apply_event P cfg) s1 events)) (nonce_of msg) = None" .
  from verifySignature_without_record [OF this] show ?thesis
    by (simp add: replay_error_def)
qed

section \<open>The example run of the server\<close>

lemma example_nonce_generated:
  "generateNonce example_source (Some 32) = Some (Return (nonce example_message))"
proof -
  have len: "length (accepted example_source 0 52) = 32"
    by code_simp
  have chars: "map nonce_char (take 32 (accepted example_source 0 52))
      = js ''A9A9BA9A9BA9A9BA9A9BA9A9BA9A9BA9''"
    by code_simp
  have n: "nonce example_message = js ''A9A9BA9A9BA9A9BA9A9BA9A9BA9A9BA9''"
    by (simp add: example_message_def)
  have "generateNonce_loop example_source 32 0 []
          = Some (Return ([] @ map nonce_char (take (32 - length ([]::jsstring)) (accepted example_source 0 52))))"
    by (rule loop_returns) (simp_all add: quota_def len)
  then have "generateNonce_loop example_source 32 0 []
          = Some (Return (map nonce_char (take 32 (accepted example_source 0 52))))"
    by simp
  then show ?thesis
    unfolding generateNonce_def option.case chars n .
qed

lemma createChallenge_example:
  "createChallenge example_platform example_options example_source 1769947200000 initial_state
       (address example_message)
     = Some (Return \<lparr> challengeId = js ''ch_47DEQpj8HBSa-_TI'',
                        ch_message = example_text,
                        messageHash = js ''47DEQpj8HBSa-_TImW-5JCeuQeRkm5NMpJWZG3hSuFU'',
                        ch_expiresAt = js ''2026-02-01T12:05:00.000Z'' \<rparr>,
             issued_state)"
proof -
  have dom: "isValidDomain (js ''example.com'')"
    by (simp add: isValidDomain_def js_def isAlnum_def)
  have adr: "isValidSolanaAddress_text (address example_message)"
    by (simp add: isValidSolanaAddress_text_def example_message_def js_def isBase58Char_def)
  have msg: "createMessage example_platform example_source 1769947200000
      \<lparr> p_domain = js ''example.com'', p_address = address example_message,
        p_uri = js ''https://example.com/auth'', p_chainId = None,
        p_statement = Some (js ''Sign in to Example App''), p_nonce = Some (nonce example_message),
        p_expirationMinutes = Some 5, p_resources = Some [js ''https://api.example.com''],
        p_requestId = None \<rparr> = Some (Return example_message)"
    using dom adr by (simp add: createMessage_def example_platform_def example_message_def)
  have id: "js ''ch_'' @ take 16 (js ''47DEQpj8HBSa-_TImW-5JCeuQeRkm5NMpJWZG3hSuFU'') = js ''ch_47DEQpj8HBSa-_TI''"
    by (simp add: js_def)
  have plat: "sha256_base64url example_platform x = js ''47DEQpj8HBSa-_TImW-5JCeuQeRkm5NMpJWZG3hSuFU''"
    "toISOString example_platform 1769947500000 = js ''2026-02-01T12:05:00.000Z''" for x
    by (simp_all add: example_platform_def)
  show ?thesis
    by (simp add: createChallenge_def example_address_valid example_nonce_generated
        example_options_def msg Let_def plat id issued_state_def initial_state_def
        example_record_def example_text_def)
qed

lemma example_spec_verify:
  "spec_verify example_platform example_now example_text (js ''sig58'') (address example_message)
     (server_verify_options example_options)
   = \<lparr> success = True, message = Some example_message, error = None \<rparr>"
proof -
  have len: "length example_signature = 64" by (simp add: example_signature_def)
  have dom: "domain example_message = js ''example.com''" by (simp add: example_message_def)
  show ?thesis
    by (simp add: spec_verify_def find_checks parse_example example_address_valid example_timing
        example_decoders decodeSignature_def len example_ed25519 options_domain_def
        options_nonce_def options_skipTimeCheck_def server_verify_options_def example_options_def
        dom)
qed

lemma example_spec_verify_late:
  "spec_verify example_platform 1769947560000 example_text (js ''sig58'') (address example_message)
     (server_verify_options example_options)
   = failure (js ''Message has expired'')"
proof -
  have dom: "domain example_message = js ''example.com''" by (simp add: example_message_def)
  have "example_Date_parse (js ''2026-02-01T12:05:00.000Z'') = Some 1769947500000"
    by (simp add: example_Date_parse_def js_def)
  moreover have "js ''2026-02-01T12:05:00.000Z'' \<noteq> []" by (simp add: js_def)
  ultimately have tm: "validateTiming (Date_parse example_platform) 1769947560000 example_message
      = \<lparr> valid = False, timing_error = Some (js ''Message has expired'') \<rparr>"
    by (simp add: validateTiming_def example_platform_def example_message_def)
  show ?thesis
    by (simp add: spec_verify_def find_checks parse_example example_address_valid tm
        options_domain_def options_nonce_def options_skipTimeCheck_def server_verify_options_def
        example_options_def dom failure_def)
qed

lemma example_nonce_of: "nonce_of example_text = nonce example_message"
  by (simp add: nonce_of_def parse_example)

lemma first_verification:
  "fst (verifySignature example_platform example_options (js ''c2Vzc2lvbg'') example_now issued_state
      example_text (address example_message) (js ''sig58''))
   = Return \<lparr> token = js ''siwa_c2Vzc2lvbg'', se_address = address example_message,
                se_expiresAt = js ''2026-02-01T13:01:00.000Z'',
                se_scopes = Some [js ''https://api.example.com''] \<rparr>"
proof -
  have rec: "InMemoryNonceStore_get (nonceStore issued_state) (nonce example_message) = Some example_record"
    by (simp add: issued_state_def InMemoryNonceStore_get_def InMemoryNonceStore_set_def)
  have pk: "nd_pubkey example_record = address example_message"
    by (simp add: example_record_def)
  have iso: "toISOString example_platform (example_now + 60000 * sessionExpirationMinutes example_options)
      = js ''2026-02-01T13:01:00.000Z''"
    by (simp add: example_platform_def example_now_def example_options_def)
  have tok: "js ''siwa_'' @ js ''c2Vzc2lvbg'' = js ''siwa_c2Vzc2lvbg''" by (simp add: js_def)
  have res: "resources example_message = Some [js ''https://api.example.com'']"
    by (simp add: example_message_def)
  show ?thesis
    by (simp add: verifySignature_unfold example_spec_verify example_nonce_of rec pk iso tok res)
qed

theorem replay_rejected_witness:
  "fst (verifySignature example_platform example_options (js ''c2Vzc2lvbg'') example_now issued_state
      example_text (address example_message) (js ''sig58''))
   = Return \<lparr> token = js ''siwa_c2Vzc2lvbg'', se_address = address example_message,
                se_expiresAt = js ''2026-02-01T13:01:00.000Z'',
                se_scopes = Some [js ''https://api.example.com''] \<rparr>
   \<and> fst (verifySignature example_platform example_options (js ''cmVwbGF5'') example_now
          (foldl (apply_event example_platform example_options)
             (snd (verifySignature example_platform example_options (js ''c2Vzc2lvbg'') example_now
                     issued_state example_text (address example_message) (js ''sig58'')))
             [RunTimers example_now])
          example_text (address example_message) (js ''sig58''))
     = Throw (js ''Invalid or expired nonce'')"
proof -
  let ?first = "verifySignature example_platform example_options (js ''c2Vzc2lvbg'') example_now
      issued_state example_text (address example_message) (js ''sig58'')"
  have "?first = (fst ?first, snd ?first)" by simp
  then have run: "?first = (Return \<lparr> token = js ''siwa_c2Vzc2lvbg'', se_address = address example_message,
                se_expiresAt = js ''2026-02-01T13:01:00.000Z'',
                se_scopes = Some [js ''https://api.example.com''] \<rparr>, snd ?first)"
    by (simp only: first_verification)
  have ev: "list_all (issues_other_nonce (nonce_of example_text)) [RunTimers example_now]"
    by simp
  from replay_rejected [OF run ev, of "js ''cmVwbGF5''" example_now] first_verification
  show ?thesis
    by (simp add: example_spec_verify del: foldl.simps apply_event.simps)
qed

text \<open>
  The error is not always "Invalid or expired nonce": \<^verbatim>\<open>verify\<close> runs first, so a replay
  after the expiration time of the message fails with "Message has expired".
\<close>

theorem replay_counterexample:
  "fst (verifySignature example_platform example_options (js ''c2Vzc2lvbg'') example_now issued_state
      example_text (address example_message) (js ''sig58''))
   = Return \<lparr> token = js ''siwa_c2Vzc2lvbg'', se_address = address example_message,
                se_expiresAt = js ''2026-02-01T13:01:00.000Z'',
                se_scopes = Some [js ''https://api.example.com''] \<rparr>
   \<and> fst (verifySignature example_platform example_options (js ''cmVwbGF5'') 1769947560000
          (snd (verifySignature example_platform example_options (js ''c2Vzc2lvbg'') example_now
                  issued_state example_text (address example_message) (js ''sig58'')))
          example_text (address example_message) (js ''sig58''))
     = Throw (js ''Message has expired'')
   \<and> js ''Message has expired'' \<noteq> js ''Invalid or expired nonce''"
proof -
  let ?first = "verifySignature example_platform example_options (js ''c2Vzc2lvbg'') example_now
      issued_state example_text (address example_message) (js ''sig58'')"
  have "?first = (fst ?first, snd ?first)" by simp
  then have run: "?first = (Return \<lparr> token = js ''siwa_c2Vzc2lvbg'', se_address = address example_message,
                se_expiresAt = js ''2026-02-01T13:01:00.000Z'',
                se_scopes = Some [js ''https://api.example.com''] \<rparr>, snd ?first)"
    by (simp only: first_verification)
  from verifySignature_consumes [OF run]
  have "entries (nonceStore (snd ?first)) (nonce_of example_text) = None" .
  from verifySignature_without_record [OF this, of example_platform example_options
      "js ''cmVwbGF5''" 1769947560000 "address example_message" "js ''sig58''"]
  have "fst (verifySignature example_platform example_options (js ''cmVwbGF5'') 1769947560000
          (snd ?first) example_text (address example_message) (js ''sig58''))
     = Throw (js ''Message has expired'')"
    by (simp add: replay_error_def example_spec_verify_late failure_def)
  moreover have "js ''Message has expired'' \<noteq> js ''Invalid or expired nonce''"
    by (simp add: js_def)
  ultimately show ?thesis using first_verification by simp
qed

section \<open>Racing calls on the Redis nonce store\<close>

lemma consume_alone:
  "race c [False, False] (r, BeforeGet, b)
     = (case RedisNonceStore_deleteAndGet (call_keyPrefix c) (call_now c) r (call_nonce c) of
          (None, r1) \<Rightarrow> (r1, Finished (Throw (js ''Invalid or expired nonce'')), b)
        | (Some data, r1) \<Rightarrow> (r1, Resumed (Some data), b))"
  by (simp add: RedisNonceStore_deleteAndGet_def split: prod.splits option.splits)

lemma issued_redis_get:
  "RedisNonceStore_get (js ''siwa:nonce:'') example_now issued_redis (nonce example_message)
     = (Some example_record, issued_redis)"
  by (simp add: issued_redis_def RedisNonceStore_set_def RedisNonceStore_get_def redis_store_set_def
      redis_store_get_def redis_setex_def redis_get_def example_record_def example_now_def Let_def)

text \<open>
  C3. Two calls of \<^verbatim>\<open>verifySignature\<close> that consume the same nonce through
  \<^verbatim>\<open>RedisNonceStore.deleteAndGet\<close>: when their Redis commands alternate, both read the
  record before either deletes it, and both succeed. One after the other, the second fails
  with "Invalid or expired nonce".
\<close>

theorem deleteAndGet_race:
  "snd (race example_call [False, True, False, True, False, True] (issued_redis, BeforeGet, BeforeGet))
     = (Finished (Return (address example_message)), Finished (Return (address example_message)))
   \<and> snd (race example_call [False, False, False, True, True, True] (issued_redis, BeforeGet, BeforeGet))
     = (Finished (Return (address example_message)), Finished (Throw (js ''Invalid or expired nonce'')))"
proof -
  have get: "RedisNonceStore_get (call_keyPrefix example_call) (call_now example_call) issued_redis
      (call_nonce example_call) = (Some example_record, issued_redis)"
    using issued_redis_get by (simp add: example_call_def)
  have gone: "RedisNonceStore_get (call_keyPrefix example_call) (call_now example_call)
      (RedisNonceStore_delete (call_keyPrefix example_call) r (call_nonce example_call))
      (call_nonce example_call)
      = (None, RedisNonceStore_delete (call_keyPrefix example_call) r (call_nonce example_call))" for r
    by (simp add: RedisNonceStore_get_def RedisNonceStore_delete_def redis_store_get_def
        redis_store_delete_def redis_get_def redis_del_def)
  have pk: "nd_pubkey example_record = call_pubkey example_call"
    by (simp add: example_record_def example_call_def)
  have addr: "call_pubkey example_call = address example_message"
    by (simp add: example_call_def)
  show ?thesis
    by (simp add: get gone pk addr)
qed

text \<open>The \<^verbatim>\<open>deleteAndGet\<close> of the in-memory store of the later build hands a record out
  once.\<close>

lemma InMemoryNonceStore_deleteAndGet_once:
  "fst (InMemoryNonceStore_deleteAndGet now' (snd (InMemoryNonceStore_deleteAndGet now s name)) name)
     = None"
  by (simp add: InMemoryNonceStore_deleteAndGet_def InMemoryNonceStore_delete_def
      split: option.splits)

section \<open>Expiry at read time\<close>

text \<open>The session store checks the expiry when it reads, and so does the nonce store of the
  later build.\<close>

lemma InMemorySessionStore_get_unexpired:
  assumes "InMemorySessionStore_get now s tok = (Some session, s')"
  shows "\<not> sd_expiresAt session < now"
  using assms by (auto simp add: InMemorySessionStore_get_def split: option.splits if_splits)

lemma validateSession_unexpired:
  assumes "validateSession now s tok = (Some session, s')"
  shows "\<not> sd_expiresAt session < now"
  using assms InMemorySessionStore_get_unexpired [of now "sessionStore s" tok session]
  by (auto simp add: validateSession_def split: prod.splits)

lemma InMemoryNonceStore_get_checked_unexpired:
  assumes "InMemoryNonceStore_get_checked now s name = (Some data, s')"
  shows "\<not> nd_expiresAt data < now"
  using assms by (auto simp add: InMemoryNonceStore_get_checked_def split: option.splits if_splits)

text \<open>The Redis stores do not check when they read; their \<^verbatim>\<open>set\<close> gives the key a time
  to live that ends no later than the record expires.\<close>

lemma ttl_within_empty: "ttl_within expiry Map.empty"
  by (simp add: ttl_within_def)

lemma floor_seconds: "now + (t - now) div 1000 * 1000 \<le> (t::int)"
proof -
  have "0 \<le> (t - now) mod 1000" by simp
  moreover have "t - now = (t - now) div 1000 * 1000 + (t - now) mod 1000" by simp
  ultimately show ?thesis by linarith
qed

lemma ttl_within_set:
  assumes "ttl_within expiry r"
  shows "ttl_within expiry (redis_store_set expiry keyPrefix now r name data)"
  using assms floor_seconds [of now "expiry data"]
  by (auto simp add: ttl_within_def redis_store_set_def redis_setex_def Let_def)

lemma ttl_within_delete:
  assumes "ttl_within expiry r"
  shows "ttl_within expiry (redis_store_delete keyPrefix r name)"
  using assms by (auto simp add: ttl_within_def redis_store_delete_def redis_del_def)

lemma redis_store_get_unexpired:
  assumes "ttl_within expiry r" and "redis_store_get keyPrefix now r name = (Some data, r')"
  shows "\<not> expiry data < now \<and> ttl_within expiry r'"
proof -
  from assms(2) obtain e where
    e: "r (getKey keyPrefix name) = Some (Encoded data, e)" "\<not> now > e" "r' = r"
    by (auto simp add: redis_store_get_def redis_get_def
        split: option.splits stored.splits if_splits prod.splits)
  from assms(1) e(1) have "e \<le> expiry data"
    unfolding ttl_within_def by blast
  with e(2,3) assms(1) show ?thesis by simp
qed

text \<open>
  C4. The read-time expiry check is missing in \<^verbatim>\<open>InMemoryNonceStore.get\<close> of
  server/dist/index.js: a record that is set when it has already expired is read back, with
  its \<^verbatim>\<open>expiresAt\<close> in the past, until the event loop runs the timer (due one millisecond
  after the \<^verbatim>\<open>set\<close>).
\<close>

theorem InMemoryNonceStore_get_expired:
  "InMemoryNonceStore_get
     (InMemoryNonceStore_set 1769947560000 empty_store (nonce example_message) example_record)
     (nonce example_message) = Some example_record
   \<and> nd_expiresAt example_record < 1769947560000
   \<and> timers (InMemoryNonceStore_set 1769947560000 empty_store (nonce example_message) example_record)
       = [(nonce example_message, 1769947560001)]
   \<and> InMemoryNonceStore_get
       (run_timers 1769947560001
          (InMemoryNonceStore_set 1769947560000 empty_store (nonce example_message) example_record))
       (nonce example_message) = None"
  by (simp add: InMemoryNonceStore_get_def InMemoryNonceStore_set_def empty_store_def
      example_record_def timer_due_def run_timers_def)

section \<open>The rate limit counter\<close>

text \<open>Away from the end of the window the counter does what the specification says.\<close>

lemma increment_away_from_the_boundary:
  "map (\<lambda>res. (allowed res, count res))
     (increment_calls Map.empty [0, 1000, 2000, 3000, 4000, 5000, 6000, 7000, 8000, 9000, 10000, 900001])
   = [(True, 1), (True, 2), (True, 3), (True, 4), (True, 5), (True, 6), (True, 7), (True, 8),
      (True, 9), (True, 10), (False, 10), (True, 1)]"
  by code_simp

text \<open>
  C9. \<^verbatim>\<open>RedisRateLimitStore.increment\<close> with 10 requests per 15 minutes, one call at time
  0 and eleven calls 500 milliseconds before the window ends: \<^verbatim>\<open>set\<close> rounds the
  remaining time down to 0 seconds and stores nothing, so every one of the eleven calls is
  allowed and reports the count 2.
\<close>

theorem increment_in_the_last_second:
  "map (\<lambda>res. (allowed res, count res))
     (increment_calls Map.empty
        [0, 899500, 899500, 899500, 899500, 899500, 899500, 899500, 899500, 899500, 899500, 899500])
   = [(True, 1), (True, 2), (True, 2), (True, 2), (True, 2), (True, 2), (True, 2), (True, 2),
      (True, 2), (True, 2), (True, 2), (True, 2)]"
  by code_simp

end
